theory Spec2Isabelle
  imports Main "HOL-Library.Sublist" "HOL-Library.Word"
begin

section \<open>JavaScript strings and the regular expressions of uiUtil.js\<close>

text \<open>
  A JavaScript string is modelled as a \<^typ>\<open>string\<close>, one \<^typ>\<open>char\<close> per code unit.
  The characters that the regular expressions of \<^verbatim>\<open>uiUtil.js\<close> single out are all
  ASCII. The line terminators that \<^verbatim>\<open>.\<close> refuses are LF and CR; U+2028 and U+2029,
  which JavaScript also counts, lie outside the 8-bit \<^typ>\<open>char\<close>.
\<close>

definition lineTerminator :: "char \<Rightarrow> bool" where
  "lineTerminator c = (c = CHR 0x0A \<or> c = CHR 0x0D)"

text \<open>The class \<^verbatim>\<open>\d\<close> is \<^verbatim>\<open>[0-9]\<close>.\<close>

definition isDigit :: "char \<Rightarrow> bool" where
  "isDigit c = (c \<in> set ''0123456789'')"

text \<open>
  \<^verbatim>\<open>s.replace(/F R*$/, '')\<close> for two one-character classes \<^verbatim>\<open>F\<close> and \<^verbatim>\<open>R\<close>, without
  the \<^verbatim>\<open>g\<close> and \<^verbatim>\<open>m\<close> flags. The engine tries the start positions from left to right. At a
  start position \<^verbatim>\<open>F\<close> consumes one character, \<^verbatim>\<open>R*\<close> consumes greedily, and \<^verbatim>\<open>$\<close>
  holds at the end of the input only: the attempt succeeds exactly when every remaining
  character is in \<^verbatim>\<open>R\<close> (giving characters back from \<^verbatim>\<open>R*\<close> only moves away from the
  end). The first match runs to the end of the string and is replaced by the empty string.
\<close>

fun replaceToEnd :: "(char \<Rightarrow> bool) \<Rightarrow> (char \<Rightarrow> bool) \<Rightarrow> string \<Rightarrow> string" where
  "replaceToEnd F R [] = []"
| "replaceToEnd F R (c # cs) =
     (if F c \<and> list_all R cs then [] else c # replaceToEnd F R cs)"

subsection \<open>removeUrlParameters\<close>

text \<open>
  \<^verbatim>\<open>
  function removeUrlParameters(url) {
      var strippedUrl = url.replace(/\?[^?]*$/, '');
      strippedUrl = strippedUrl.replace(/#[^#;]*$/, '');
      return strippedUrl;
  }
  \<close>
\<close>

definition removeQuerystring :: "string \<Rightarrow> string" where
  "removeQuerystring url = replaceToEnd (\<lambda>c. c = CHR ''?'') (\<lambda>c. c \<noteq> CHR ''?'') url"

definition removeAnchor :: "string \<Rightarrow> string" where
  "removeAnchor url =
     replaceToEnd (\<lambda>c. c = CHR ''#'') (\<lambda>c. c \<noteq> CHR ''#'' \<and> c \<noteq> CHR '';'') url"

definition removeUrlParameters :: "string \<Rightarrow> string" where
  "removeUrlParameters url = removeAnchor (removeQuerystring url)"

section \<open>The page and the platform\<close>

text \<open>
  The functions of \<^verbatim>\<open>uiUtil.js\<close> act on the host page through well-known element ids.
  Each function is modelled on a record of the part of the page and of the module's variables
  that it reads and writes. An element that the code dereferences without a test is taken to
  be in the markup; an element (or value) that the code tests before use is an
  \<^typ>\<open>'a option\<close>. An exception leaves the effects made before it in place, so a function
  that can throw returns the exception, if any, together with the state it leaves.
  \<open>Thrown\<close> is an exception of the caller's own code, thrown by a callback; \<open>Unmodelled\<close>
  marks a run that leaves the part of the platform that is modelled.
\<close>

datatype exn = TypeError | InvalidCharacterError | SyntaxError | Thrown | Unmodelled

type_synonym 's outcome = "exn option \<times> 's"

definition andThen :: "'s outcome \<Rightarrow> ('s \<Rightarrow> 's outcome) \<Rightarrow> 's outcome" where
  "andThen r f = (case r of (None, s) \<Rightarrow> f s | (Some e, s) \<Rightarrow> (Some e, s))"

type_synonym bytes = "8 word list"

record blob =
  parts :: bytes
  blobType :: string

text \<open>The event listeners that the module registers, each named by what its body does.\<close>

datatype handler =
    HideBanner
  | RevokeObjectURL string
  | SaveBlob blob string
  | ReturnToArticle

text \<open>
  \<^verbatim>\<open>URL.createObjectURL(blob)\<close> returns a fresh URL of the scheme \<^verbatim>\<open>blob:\<close> and enters it in
  the blob URL store; the part after the scheme is the platform's choice and a parameter here.
\<close>

definition createObjectURL :: "string \<Rightarrow> string" where
  "createObjectURL fresh = ''blob:'' @ fresh"

section \<open>The download alert\<close>

text \<open>
  \<^verbatim>\<open>title.replace(/^.*\/([^\/]+)$/, '$1')\<close>. The pattern is anchored at both ends, so a match is
  the whole title and the result is the captured group. \<^verbatim>\<open>.*\<close> first takes the longest run
  of characters that are not line terminators and then gives them back one at a time; after
  \<open>n\<close> characters the rest of the pattern asks for a \<^verbatim>\<open>/\<close> followed, up to the end of the
  title, by one or more characters other than \<^verbatim>\<open>/\<close>. Without a match the title is returned
  as it is.
\<close>

definition segmentAt :: "string \<Rightarrow> nat \<Rightarrow> string option" where
  "segmentAt s n =
     (case drop n s of
        [] \<Rightarrow> None
      | c # g \<Rightarrow> if c = CHR ''/'' \<and> g \<noteq> [] \<and> list_all (\<lambda>d. d \<noteq> CHR ''/'') g then Some g else None)"

primrec lastSegmentFrom :: "string \<Rightarrow> nat \<Rightarrow> string option" where
  "lastSegmentFrom s 0 = segmentAt s 0"
| "lastSegmentFrom s (Suc n) =
     (case segmentAt s (Suc n) of Some g \<Rightarrow> Some g | None \<Rightarrow> lastSegmentFrom s n)"

definition filenameFromTitle :: "string \<Rightarrow> string" where
  "filenameFromTitle title =
     (case lastSegmentFrom title (length (takeWhile (\<lambda>c. \<not> lineTerminator c) title)) of
        Some g \<Rightarrow> g
      | None \<Rightarrow> title)"

text \<open>\<^verbatim>\<open>filename.replace(/[\/\\:*?"<>|]/g, '_')\<close>: the nine characters of the class.\<close>

definition unsafeCharacters :: "char list" where
  "unsafeCharacters =
     [CHR ''/'', CHR 0x5C, CHR '':'', CHR ''*'', CHR ''?'', CHR 0x22, CHR ''<'', CHR ''>'', CHR ''|'']"

definition makeSafe :: "string \<Rightarrow> string" where
  "makeSafe filename = map (\<lambda>c. if c \<in> set unsafeCharacters then CHR ''_'' else c) filename"

text \<open>The \<^verbatim>\<open>download\<close> parameter is a Boolean or a string.\<close>

datatype directive = Flag bool | Filename string

record anchor =
  href :: string
  target :: string
  anchorType :: string
  download :: string
  anchorClasses :: "string list"
  anchorHTML :: string
  anchorClick :: "handler list"

record downloadPage =
  downloadAlertDisplay :: string
  downloadAlertDismiss :: "handler list"
  downloadAlertSetup :: bool
  alertMessageHTML :: string
  alertMessageChildren :: "anchor list"
  searchingArticlesDisplay :: string
  blobStore :: "(string \<times> blob) list"

text \<open>
  \<^verbatim>\<open>
  var downloadAlertSetup = false;
  function displayFileDownloadAlert(title, download, contentType, content) {
      var downloadAlert = document.getElementById('downloadAlert');
      downloadAlert.style.display = 'block';
      if (!downloadAlertSetup) downloadAlert.querySelector('button[data-hide]').addEventListener('click', function() {
          downloadAlert.style.display = 'none';
      });
      downloadAlertSetup = true;
      if (!contentType) contentType = 'application/octet-stream';
      var a = document.createElement('a');
      var blob = new Blob([content], { 'type': contentType });
      var filename = download === true ? title.replace(/^.*\/([^\/]+)$/, '$1') : download;
      filename = filename.replace(/[\/\\:*?"<>|]/g, '_');
      a.href = window.URL.createObjectURL(blob);
      a.target = '_blank';
      a.type = contentType;
      a.download = filename;
      a.classList.add('alert-link');
      a.innerHTML = filename;
      var alertMessage = document.getElementById('alertMessage');
      alertMessage.innerHTML = '<strong>Download</strong> If the download does not start, please tap the following link: ';
      alertMessage.appendChild(a);
      try { a.click(); }
      catch (err) {
          if (window.navigator && window.navigator.msSaveBlob) {
              a.addEventListener('click', function(e) {
                  window.navigator.msSaveBlob(blob, filename);
                  e.preventDefault();
              });
          }
      }
      $("#searchingArticles").hide();
  }
  \<close>
  The platform's part of a call is a record: the fresh blob URL, whether \<^verbatim>\<open>a.click()\<close> throws,
  and whether \<^verbatim>\<open>navigator.msSaveBlob\<close> exists.
\<close>

record platform =
  freshURL :: string
  clickThrows :: bool
  msSaveBlob :: bool

definition revealDownloadAlert :: "downloadPage \<Rightarrow> downloadPage" where
  "revealDownloadAlert st =
     (let st1 = st\<lparr>downloadAlertDisplay := ''block''\<rparr>;
          st2 = (if \<not> downloadAlertSetup st1
                 then st1\<lparr>downloadAlertDismiss := downloadAlertDismiss st1 @ [HideBanner]\<rparr>
                 else st1)
      in st2\<lparr>downloadAlertSetup := True\<rparr>)"

text \<open>
  \<^verbatim>\<open>download === true ? ... : download\<close>, and the call of \<^verbatim>\<open>replace\<close> on the result: a Boolean
  \<^verbatim>\<open>false\<close> has no such method.
\<close>

definition saveFilename :: "string \<Rightarrow> directive \<Rightarrow> exn + string" where
  "saveFilename title d =
     (case d of
        Flag True \<Rightarrow> Inr (makeSafe (filenameFromTitle title))
      | Flag False \<Rightarrow> Inl TypeError
      | Filename name \<Rightarrow> Inr (makeSafe name))"

definition displayFileDownloadAlert ::
  "string \<Rightarrow> directive \<Rightarrow> string option \<Rightarrow> bytes \<Rightarrow> platform \<Rightarrow> downloadPage
     \<Rightarrow> downloadPage outcome" where
  "displayFileDownloadAlert title d contentType content pf st =
     (let st1 = revealDownloadAlert st;
          ctype = (case contentType of
                     None \<Rightarrow> ''application/octet-stream''
                   | Some t \<Rightarrow> if t = [] then ''application/octet-stream'' else t);
          b = \<lparr>parts = content, blobType = ctype\<rparr>
      in case saveFilename title d of
           Inl e \<Rightarrow> (Some e, st1)
         | Inr filename \<Rightarrow>
             (let url = createObjectURL (freshURL pf);
                  a = \<lparr>href = url, target = ''_blank'', anchorType = ctype, download = filename,
                       anchorClasses = [''alert-link''], anchorHTML = filename, anchorClick = []\<rparr>;
                  a' = (if clickThrows pf \<and> msSaveBlob pf
                        then a\<lparr>anchorClick := [SaveBlob b filename]\<rparr> else a)
              in (None,
                  st1\<lparr>blobStore := blobStore st1 @ [(url, b)],
                      alertMessageHTML :=
                        ''<strong>Download</strong> If the download does not start, please tap the following link: '',
                      alertMessageChildren := [a'],
                      searchingArticlesDisplay := ''none''\<rparr>)))"

text \<open>A session is a sequence of calls, each with its arguments and the platform's part.\<close>

record downloadCall =
  callTitle :: string
  callDownload :: directive
  callContentType :: "string option"
  callContent :: bytes
  callPlatform :: platform

definition downloadStep :: "downloadCall \<Rightarrow> downloadPage \<Rightarrow> downloadPage" where
  "downloadStep c st =
     snd (displayFileDownloadAlert (callTitle c) (callDownload c) (callContentType c)
            (callContent c) (callPlatform c) st)"

definition downloadSession :: "downloadCall list \<Rightarrow> downloadPage \<Rightarrow> downloadPage" where
  "downloadSession cs st = fold downloadStep cs st"

section \<open>The update notifier\<close>

text \<open>
  The cache names that the settings store hands to its callback: the identifiers of the
  application cache and of the assets cache, and whether the error marker is set.
\<close>

record cacheNames =
  app :: string
  assets :: string
  error :: bool

text \<open>
  \<^verbatim>\<open>cacheNames.app.replace(/^([^\d]+).+/, '$1')\<close>. The group first takes the longest run of
  characters that are not digits, at least one, and gives them back one at a time, keeping at
  least one; after a group of \<open>k\<close> characters \<^verbatim>\<open>.+\<close> asks for one character that is not a
  line terminator and then takes all that follow up to the next line terminator. The match is
  replaced by the group, so what comes after the match stays in the result. Without a match
  the identifier is returned as it is.
\<close>

definition groupAt :: "string \<Rightarrow> nat \<Rightarrow> string option" where
  "groupAt s k =
     (case drop k s of
        [] \<Rightarrow> None
      | c # _ \<Rightarrow> if lineTerminator c then None
                else Some (take k s @ dropWhile (\<lambda>d. \<not> lineTerminator d) (drop k s)))"

primrec groupFrom :: "string \<Rightarrow> nat \<Rightarrow> string option" where
  "groupFrom s 0 = None"
| "groupFrom s (Suc k) =
     (case groupAt s (Suc k) of Some r \<Rightarrow> Some r | None \<Rightarrow> groupFrom s k)"

definition cachePrefix :: "string \<Rightarrow> string" where
  "cachePrefix appName =
     (case groupFrom appName (length (takeWhile (\<lambda>c. \<not> isDigit c) appName)) of
        Some r \<Rightarrow> r
      | None \<Rightarrow> appName)"

text \<open>\<^verbatim>\<open>s.indexOf(t)\<close>: the first position at which \<open>t\<close> occurs in \<open>s\<close>, or \<open>-1\<close>.\<close>

fun indexOf :: "string \<Rightarrow> string \<Rightarrow> int" where
  "indexOf [] t = (if t = [] then 0 else - 1)"
| "indexOf (c # cs) t =
     (if prefix t (c # cs) then 0
      else (let i = indexOf cs t in if i < 0 then - 1 else i + 1))"

text \<open>\<^verbatim>\<open>s.replace(t, '')\<close> for a string \<open>t\<close>: the first occurrence of \<open>t\<close> is taken out.\<close>

definition removeFirst :: "string \<Rightarrow> string \<Rightarrow> string" where
  "removeFirst s t =
     (let i = indexOf s t in if i < 0 then s else take (nat i) s @ drop (nat i + length t) s)"

record banner =
  bannerDisplay :: string
  bannerDismiss :: "handler list"

text \<open>
  The part of the session that the notifier works on. \<open>updateAlert\<close> is the module variable
  of that name, \<open>null\<close> when the page has no such element. \<open>settingsRequests\<close> counts the calls
  of \<^verbatim>\<open>settingsStore.getCacheNames\<close> whose callback has not run yet; \<open>keysRequests\<close> holds, for
  each promise of \<^verbatim>\<open>caches.keys()\<close> that is not settled yet, the cache names that its
  continuation has captured.
\<close>

record updatePage =
  serviceWorker :: bool
  updateAlert :: "banner option"
  pwaUpdateNeeded :: bool
  paramsCacheNames :: "cacheNames option"
  persistentMessage :: string
  settingsRequests :: nat
  keysRequests :: "cacheNames list"

text \<open>
  \<^verbatim>\<open>
  var updateAlert = document.getElementById('updateAlert');
  function checkUpdateStatus(appstate) {
      if ('serviceWorker' in navigator && !appstate.pwaUpdateNeeded) {
          settingsStore.getCacheNames(function (cacheNames) {
              if (cacheNames && !cacheNames.error) {
                  params.cacheNames = cacheNames;
                  caches.keys().then(function (keyList) {
                      updateAlert.style.display = 'none';
                      var cachePrefix = cacheNames.app.replace(/^([^\d]+).+/, '$1');
                      keyList.forEach(function (key) {
                          if (key === cacheNames.app || key === cacheNames.assets) return;
                          if (key.indexOf(cachePrefix)) return;
                          appstate.pwaUpdateNeeded = true;
                          updateAlert.style.display = 'block';
                          document.getElementById('persistentMessage').innerHTML = 'Version ' + key.replace(cachePrefix, '') +
                              ' is ready to install. (Re-launch app to install.)';
                      });
                  });
              }
          });
      }
  }
  if (updateAlert) updateAlert.querySelector('button[data-hide]').addEventListener('click', function () {
      updateAlert.style.display = 'none';
  });
  \<close>
\<close>

definition setBannerDisplay :: "string \<Rightarrow> updatePage \<Rightarrow> updatePage" where
  "setBannerDisplay d st =
     st\<lparr>updateAlert := map_option (\<lambda>b. b\<lparr>bannerDisplay := d\<rparr>) (updateAlert st)\<rparr>"

text \<open>The body of the \<^verbatim>\<open>forEach\<close> callback; it runs only once the banner has been found.\<close>

definition inspectKey :: "cacheNames \<Rightarrow> string \<Rightarrow> string \<Rightarrow> updatePage \<Rightarrow> updatePage" where
  "inspectKey cn pre key st =
     (if key = app cn \<or> key = assets cn then st
      else if indexOf key pre \<noteq> 0 then st
      else (setBannerDisplay ''block'' (st\<lparr>pwaUpdateNeeded := True\<rparr>))
             \<lparr>persistentMessage :=
                ''Version '' @ removeFirst key pre @ '' is ready to install. (Re-launch app to install.)''\<rparr>)"

text \<open>
  The continuation of \<^verbatim>\<open>caches.keys()\<close>. Without the banner its first statement throws a
  \<^verbatim>\<open>TypeError\<close>, which ends the continuation.
\<close>

definition keysContinuation :: "cacheNames \<Rightarrow> string list \<Rightarrow> updatePage \<Rightarrow> updatePage" where
  "keysContinuation cn keyList st =
     (case updateAlert st of
        None \<Rightarrow> st
      | Some b \<Rightarrow> fold (inspectKey cn (cachePrefix (app cn))) keyList (setBannerDisplay ''none'' st))"

text \<open>The callback given to \<^verbatim>\<open>getCacheNames\<close>; \<open>None\<close> is a falsy argument.\<close>

definition cacheNamesCallback :: "cacheNames option \<Rightarrow> updatePage \<Rightarrow> updatePage" where
  "cacheNamesCallback r st =
     (case r of
        None \<Rightarrow> st
      | Some cn \<Rightarrow>
          if error cn then st
          else st\<lparr>paramsCacheNames := Some cn, keysRequests := keysRequests st @ [cn]\<rparr>)"

definition checkUpdateStatus :: "updatePage \<Rightarrow> updatePage" where
  "checkUpdateStatus st =
     (if serviceWorker st \<and> \<not> pwaUpdateNeeded st
      then st\<lparr>settingsRequests := Suc (settingsRequests st)\<rparr>
      else st)"

text \<open>The statement after the function, run once when the module is loaded.\<close>

definition loadModule :: "updatePage \<Rightarrow> updatePage" where
  "loadModule st =
     st\<lparr>updateAlert := map_option (\<lambda>b. b\<lparr>bannerDismiss := bannerDismiss b @ [HideBanner]\<rparr>) (updateAlert st)\<rparr>"

text \<open>
  What can happen in a session: a call of \<^verbatim>\<open>checkUpdateStatus\<close>; the settings store running
  the callback of an outstanding request; the promise of an outstanding \<^verbatim>\<open>caches.keys()\<close>
  being resolved with a list of keys, or rejected. An event for a request that is not
  outstanding changes nothing.
\<close>

datatype event =
    CheckUpdateStatus
  | CacheNamesCallback "cacheNames option"
  | KeysResolved nat "string list"
  | KeysRejected nat

fun step :: "event \<Rightarrow> updatePage \<Rightarrow> updatePage" where
  "step CheckUpdateStatus st = checkUpdateStatus st"
| "step (CacheNamesCallback r) st =
     (case settingsRequests st of
        0 \<Rightarrow> st
      | Suc n \<Rightarrow> cacheNamesCallback r (st\<lparr>settingsRequests := n\<rparr>))"
| "step (KeysResolved i keyList) st =
     (if i < length (keysRequests st)
      then keysContinuation (keysRequests st ! i) keyList
             (st\<lparr>keysRequests := take i (keysRequests st) @ drop (Suc i) (keysRequests st)\<rparr>)
      else st)"
| "step (KeysRejected i) st =
     (if i < length (keysRequests st)
      then st\<lparr>keysRequests := take i (keysRequests st) @ drop (Suc i) (keysRequests st)\<rparr>
      else st)"

definition run :: "event list \<Rightarrow> updatePage \<Rightarrow> updatePage" where
  "run es st = fold step es st"

text \<open>The number of events of a run at which the pending-update flag passes from false to true.\<close>

fun flagSettings :: "event list \<Rightarrow> updatePage \<Rightarrow> nat" where
  "flagSettings [] st = 0"
| "flagSettings (e # es) st =
     (if \<not> pwaUpdateNeeded st \<and> pwaUpdateNeeded (step e st) then 1 else 0)
       + flagSettings es (step e st)"

text \<open>
  A check that runs to its end with nothing else in between: the call, the callback with the
  cache names, and the keys of the request just made.
\<close>

definition completeCheck :: "cacheNames \<Rightarrow> string list \<Rightarrow> updatePage \<Rightarrow> updatePage" where
  "completeCheck cn keyList st =
     run [CheckUpdateStatus, CacheNamesCallback (Some cn), KeysResolved (length (keysRequests st)) keyList] st"

text \<open>
  The keys that the loop does not skip, and the shape of identifier that the pattern of the
  prefix is written for: a name without digits, not empty, followed by a version that starts
  with a digit and has no line terminator.
\<close>

definition qualifies :: "cacheNames \<Rightarrow> string \<Rightarrow> bool" where
  "qualifies cn key =
     (key \<noteq> app cn \<and> key \<noteq> assets cn \<and> prefix (cachePrefix (app cn)) key)"

definition versionStamped :: "string \<Rightarrow> bool" where
  "versionStamped s =
     (takeWhile (\<lambda>c. \<not> isDigit c) s \<noteq> [] \<and> dropWhile (\<lambda>c. \<not> isDigit c) s \<noteq> []
      \<and> list_all (\<lambda>c. \<not> lineTerminator c) (dropWhile (\<lambda>c. \<not> isDigit c) s))"

section \<open>The asset injector\<close>

text \<open>
  \<^verbatim>\<open>/image\/webp/i.test(mimeType)\<close>: the pattern occurs somewhere in the string, letters
  compared without regard to case. Without the \<^verbatim>\<open>u\<close> flag a letter of the pattern is matched
  by its two ASCII forms only.
\<close>

definition toUpper :: "char \<Rightarrow> char" where
  "toUpper c =
     (case map_of (zip ''abcdefghijklmnopqrstuvwxyz'' ''ABCDEFGHIJKLMNOPQRSTUVWXYZ'') c of
        None \<Rightarrow> c
      | Some u \<Rightarrow> u)"

fun occursIn :: "string \<Rightarrow> string \<Rightarrow> bool" where
  "occursIn p [] = (p = [])"
| "occursIn p (c # cs) = (prefix p (c # cs) \<or> occursIn p cs)"

definition isWebp :: "string \<Rightarrow> bool" where
  "isWebp mimeType = occursIn (map toUpper ''image/webp'') (map toUpper mimeType)"

text \<open>
  The callback is a function of the caller. Of its run the model keeps that it was called,
  with which argument (\<open>None\<close> when called without), and whether it returned or threw.
\<close>

datatype completion = Returns | Throws

type_synonym callback = "string option \<Rightarrow> completion"

datatype effect =
    Called "string option"
  | ListenerAdded handler
  | AttributeSet string string
  | ConsoleError

text \<open>
  The node, the blob URL store, the decodings that \<^verbatim>\<open>webpMachine\<close> has not settled yet (each
  with the attribute name and the callback that its handlers have captured), and a journal of
  what the function and its handlers have done, in order. \<open>acceptsName\<close> is the platform's
  test of an attribute name: \<^verbatim>\<open>setAttribute\<close> throws an \<^verbatim>\<open>InvalidCharacterError\<close> for a name
  that fails it. Which names pass depends on the platform (the names of XML, or the valid
  attribute local names of the DOM standard, given below); the empty name and a name with
  whitespace pass on none.
\<close>

definition validAttributeLocalName :: "string \<Rightarrow> bool" where
  "validAttributeLocalName name =
     (name \<noteq> []
      \<and> \<not> list_ex (\<lambda>c. c \<in> set [CHR 0x09, CHR 0x0A, CHR 0x0C, CHR 0x0D, CHR 0x20, CHR 0x00,
                                   CHR ''/'', CHR ''='', CHR ''>'']) name)"

record nodePage =
  webpMachine :: bool
  acceptsName :: "string \<Rightarrow> bool"
  nodeAttributes :: "string \<Rightarrow> string option"
  loadListeners :: "handler list"
  objectURLs :: "(string \<times> blob) list"
  decodings :: "(string \<times> callback option) list"
  journal :: "effect list"

text \<open>
  \<^verbatim>\<open>
  function feedNodeWithBlob(node, nodeAttribute, content, mimeType, callback) {
      if (webpMachine && /image\/webp/i.test(mimeType)) {
          webpMachine.decode(content).then(function (uri) {
              if (callback) callback(uri);
              node.setAttribute(nodeAttribute, uri);
          }).catch(function (err) {
              console.error('There was an error decoding image in WebpMachine', err);
              if (callback) callback();
          });
      } else {
          var blob = new Blob([content], {
              type: mimeType
          });
          var url = URL.createObjectURL(blob);
          if (callback) callback(url);
          node.addEventListener('load', function () {
              URL.revokeObjectURL(url);
          });
          node.setAttribute(nodeAttribute, url);
      }
  }
  \<close>
\<close>

definition invoke :: "callback option \<Rightarrow> string option \<Rightarrow> nodePage \<Rightarrow> nodePage outcome" where
  "invoke callback arg st =
     (case callback of
        None \<Rightarrow> (None, st)
      | Some f \<Rightarrow>
          (if f arg = Throws then Some Thrown else None, st\<lparr>journal := journal st @ [Called arg]\<rparr>))"

definition setAttribute :: "string \<Rightarrow> string \<Rightarrow> nodePage \<Rightarrow> nodePage outcome" where
  "setAttribute name v st =
     (if acceptsName st name
      then (None, st\<lparr>nodeAttributes := (nodeAttributes st)(name \<mapsto> v),
                     journal := journal st @ [AttributeSet name v]\<rparr>)
      else (Some InvalidCharacterError, st))"

definition addLoadListener :: "handler \<Rightarrow> nodePage \<Rightarrow> nodePage" where
  "addLoadListener h st =
     st\<lparr>loadListeners := loadListeners st @ [h], journal := journal st @ [ListenerAdded h]\<rparr>"

definition feedNodeWithBlob ::
  "string \<Rightarrow> bytes \<Rightarrow> string \<Rightarrow> callback option \<Rightarrow> string \<Rightarrow> nodePage \<Rightarrow> nodePage outcome" where
  "feedNodeWithBlob nodeAttribute content mimeType callback fresh st =
     (if webpMachine st \<and> isWebp mimeType
      then (None, st\<lparr>decodings := decodings st @ [(nodeAttribute, callback)]\<rparr>)
      else
        (let url = createObjectURL fresh;
             st1 = st\<lparr>objectURLs := objectURLs st @ [(url, \<lparr>parts = content, blobType = mimeType\<rparr>)]\<rparr>
         in andThen (invoke callback (Some url) st1)
              (\<lambda>st2. setAttribute nodeAttribute url (addLoadListener (RevokeObjectURL url) st2))))"

text \<open>
  The handler given to \<^verbatim>\<open>catch\<close>. It is the last of the chain: what the callback throws here
  is thrown to nobody.
\<close>

definition decodeFailed :: "callback option \<Rightarrow> nodePage \<Rightarrow> nodePage" where
  "decodeFailed callback st = snd (invoke callback None (st\<lparr>journal := journal st @ [ConsoleError]\<rparr>))"

text \<open>
  The handler given to \<^verbatim>\<open>then\<close>. \<^verbatim>\<open>catch\<close> is called on the promise that \<^verbatim>\<open>then\<close> returns, so
  its handler also runs when this one throws, be it in the callback or in \<^verbatim>\<open>setAttribute\<close>.
\<close>

definition decodeSucceeded :: "string \<Rightarrow> callback option \<Rightarrow> string \<Rightarrow> nodePage \<Rightarrow> nodePage" where
  "decodeSucceeded nodeAttribute callback uri st =
     (case andThen (invoke callback (Some uri) st) (setAttribute nodeAttribute uri) of
        (None, st1) \<Rightarrow> st1
      | (Some e, st1) \<Rightarrow> decodeFailed callback st1)"

text \<open>The promise of the decoding number \<open>i\<close> is settled: fulfilled with a data URI, or rejected.\<close>

datatype decoded = Decoded string | Rejected

definition decodeSettled :: "nat \<Rightarrow> decoded \<Rightarrow> nodePage \<Rightarrow> nodePage" where
  "decodeSettled i r st =
     (if i < length (decodings st)
      then
        (let (nodeAttribute, callback) = decodings st ! i;
             st1 = st\<lparr>decodings := take i (decodings st) @ drop (Suc i) (decodings st)\<rparr>
         in case r of
              Decoded uri \<Rightarrow> decodeSucceeded nodeAttribute callback uri st1
            | Rejected \<Rightarrow> decodeFailed callback st1)
      else st)"



definition calls :: "effect list \<Rightarrow> string option list" where
  "calls es = concat (map (\<lambda>e. case e of Called arg \<Rightarrow> [arg] | _ \<Rightarrow> []) es)"

section \<open>The theme engine\<close>

text \<open>
  \<^verbatim>\<open>classList.add\<close> and \<^verbatim>\<open>classList.remove\<close> throw a \<^verbatim>\<open>SyntaxError\<close> for the empty token and an
  \<^verbatim>\<open>InvalidCharacterError\<close> for a token with ASCII whitespace. The tokens of an element are an
  ordered set: adding a token that is there changes nothing.
\<close>

definition asciiWhitespace :: "char \<Rightarrow> bool" where
  "asciiWhitespace c = (c \<in> set [CHR 0x09, CHR 0x0A, CHR 0x0C, CHR 0x0D, CHR 0x20])"

definition tokenError :: "string \<Rightarrow> exn option" where
  "tokenError token =
     (if token = [] then Some SyntaxError
      else if list_ex asciiWhitespace token then Some InvalidCharacterError
      else None)"

definition addToken :: "string \<Rightarrow> string list \<Rightarrow> string list" where
  "addToken token cl = (if token \<in> set cl then cl else cl @ [token])"

definition removeToken :: "string \<Rightarrow> string list \<Rightarrow> string list" where
  "removeToken token cl = filter (\<lambda>t. t \<noteq> token) cl"

text \<open>
  \<^verbatim>\<open>href.search(s)\<close> for a string \<open>s\<close> makes a regular expression of \<open>s\<close> and returns the
  position of its first match, or \<open>-1\<close> (here \<open>None\<close>). Modelled are the patterns made of
  characters that stand for themselves, of \<^verbatim>\<open>.\<close> (any character but a line terminator), and
  of the assertions \<^verbatim>\<open>^\<close> and \<^verbatim>\<open>$\<close>. A pattern with another character of the syntax of regular
  expressions is outside the model.
\<close>

datatype atom = Lit char | AnyChar | Bol | Eol

definition syntaxCharacter :: "char \<Rightarrow> bool" where
  "syntaxCharacter c =
     (c \<in> set [CHR 0x5C, CHR ''*'', CHR ''+'', CHR ''?'', CHR ''('', CHR '')'', CHR ''['', CHR '']'',
               CHR ''{'', CHR ''}'', CHR ''|''])"

definition atomOf :: "char \<Rightarrow> atom" where
  "atomOf c =
     (if c = CHR ''.'' then AnyChar else if c = CHR ''^'' then Bol
      else if c = CHR ''$'' then Eol else Lit c)"

definition parsePattern :: "string \<Rightarrow> atom list option" where
  "parsePattern p = (if list_ex syntaxCharacter p then None else Some (map atomOf p))"

text \<open>The atoms match at the head of \<open>rest\<close>; \<open>atStart\<close> says that \<open>rest\<close> is the whole input.\<close>

fun matchHere :: "atom list \<Rightarrow> bool \<Rightarrow> string \<Rightarrow> bool" where
  "matchHere [] atStart rest = True"
| "matchHere (Lit c # as) atStart rest =
     (case rest of [] \<Rightarrow> False | x # xs \<Rightarrow> x = c \<and> matchHere as False xs)"
| "matchHere (AnyChar # as) atStart rest =
     (case rest of [] \<Rightarrow> False | x # xs \<Rightarrow> \<not> lineTerminator x \<and> matchHere as False xs)"
| "matchHere (Bol # as) atStart rest = (atStart \<and> matchHere as atStart rest)"
| "matchHere (Eol # as) atStart rest = (rest = [] \<and> matchHere as atStart rest)"

fun searchFrom :: "atom list \<Rightarrow> bool \<Rightarrow> string \<Rightarrow> nat option" where
  "searchFrom as atStart [] = (if matchHere as atStart [] then Some 0 else None)"
| "searchFrom as atStart (x # xs) =
     (if matchHere as atStart (x # xs) then Some 0
      else map_option Suc (searchFrom as False xs))"

definition search :: "string \<Rightarrow> string \<Rightarrow> exn + nat option" where
  "search s p =
     (case parsePattern p of None \<Rightarrow> Inl Unmodelled | Some as \<Rightarrow> Inr (searchFrom as True s))"

text \<open>
  A stylesheet link of the embedded document, and the embedded document: its title and its
  elements with the id \<^verbatim>\<open>kiwixJSTheme\<close> in document order. These are taken to be links in the
  head, where the code appends its own; \<^verbatim>\<open>getElementById\<close> finds the first. \<open>linkHref\<close> is
  the value of the attribute \<^verbatim>\<open>href\<close>, as \<^verbatim>\<open>setAttribute\<close> has set it. The property \<^verbatim>\<open>href\<close>
  of the link is not this value: the platform parses it as a URL and returns the serialised
  URL (\<open>hrefOf\<close> below).
\<close>

record link =
  linkHref :: string
  linkDisabled :: bool

record articleDoc =
  docTitle :: string
  themeSheets :: "link list"

text \<open>
  The page of the theme engine: the classes of the \<^verbatim>\<open>html\<close> element and its
  \<^verbatim>\<open>dataset.theme\<close>, the classes of the footer and of the \<^verbatim>\<open>iframe\<close>, the document of the
  \<^verbatim>\<open>iframe\<close> when it can be reached, the display style of each element that has an id (for the
  help panels), whether \<^verbatim>\<open>liConfigureNav\<close> has the class \<^verbatim>\<open>active\<close>, the return link, the
  location of the window, and \<open>hrefOf\<close>: what the property \<^verbatim>\<open>href\<close> of a link of the embedded
  document returns when its attribute \<^verbatim>\<open>href\<close> has the given value. It is the URL parser and
  serialiser of the platform, against the base URL of the embedded document.
\<close>

record themePage =
  htmlClasses :: "string list"
  datasetTheme :: "string option"
  footerClasses :: "string list"
  iframeClasses :: "string list"
  contentDocument :: "articleDoc option"
  displayOf :: "string \<Rightarrow> string option"
  configureActive :: bool
  viewArticleDisplay :: string
  viewArticleClick :: "handler list"
  locationProtocol :: string
  locationHost :: string
  locationPathname :: string
  hrefOf :: "string \<Rightarrow> string"

text \<open>\<^verbatim>\<open>theme.replace(/_.*$/, '')\<close> and \<^verbatim>\<open>theme.replace(/^[^_]*/, '')\<close>.\<close>

definition appThemeOf :: "string \<Rightarrow> string" where
  "appThemeOf theme = replaceToEnd (\<lambda>c. c = CHR ''_'') (\<lambda>c. \<not> lineTerminator c) theme"

definition contentThemeOf :: "string \<Rightarrow> string" where
  "contentThemeOf theme = dropWhile (\<lambda>c. c \<noteq> CHR ''_'') theme"

text \<open>A change of the classes of one element, given by the update function of its field.\<close>

definition changeClasses ::
  "((string list \<Rightarrow> string list) \<Rightarrow> themePage \<Rightarrow> themePage) \<Rightarrow> (string \<Rightarrow> string list \<Rightarrow> string list)
     \<Rightarrow> string \<Rightarrow> themePage \<Rightarrow> themePage outcome" where
  "changeClasses element change token st =
     (case tokenError token of Some e \<Rightarrow> (Some e, st) | None \<Rightarrow> (None, element (change token) st))"

definition orLight :: "string \<Rightarrow> string" where
  "orLight contentTheme = (if contentTheme = [] then ''_light'' else contentTheme)"

definition setDisplay :: "string \<Rightarrow> string \<Rightarrow> themePage \<Rightarrow> themePage" where
  "setDisplay elementId d st =
     (case displayOf st elementId of
        None \<Rightarrow> st
      | Some _ \<Rightarrow> st\<lparr>displayOf := (displayOf st)(elementId \<mapsto> d)\<rparr>)"

definition showReturnLink :: "themePage \<Rightarrow> themePage" where
  "showReturnLink st =
     st\<lparr>viewArticleDisplay := ''block'', viewArticleClick := viewArticleClick st @ [ReturnToArticle]\<rparr>"

definition placeholderTitle :: string where
  "placeholderTitle = ''Placeholder for injecting an article into the iframe''"

text \<open>\<^verbatim>\<open>htmlEl.dataset.theme || ''\<close>.\<close>

definition oldThemeOf :: "themePage \<Rightarrow> string" where
  "oldThemeOf st = (case datasetTheme st of None \<Rightarrow> [] | Some t \<Rightarrow> t)"

definition kiwixJSSheetOf :: "themePage \<Rightarrow> link option" where
  "kiwixJSSheetOf st =
     (case contentDocument st of
        None \<Rightarrow> None
      | Some doc \<Rightarrow> (case themeSheets doc of [] \<Rightarrow> None | l # _ \<Rightarrow> Some l))"

definition sheetFragment :: "string \<Rightarrow> string" where
  "sheetFragment contentTheme = ''kiwixJS'' @ contentTheme @ ''.css''"

definition locationPrefix :: "themePage \<Rightarrow> string" where
  "locationPrefix st =
     replaceToEnd (\<lambda>c. c = CHR ''/'') (\<lambda>c. c \<noteq> CHR ''/'')
       (locationProtocol st @ ''//'' @ locationHost st @ locationPathname st)"

text \<open>
  \<^verbatim>\<open>
  function applyAppTheme(theme) {
      var htmlEl = document.querySelector('html');
      var footer = document.querySelector('footer');
      var oldTheme = htmlEl.dataset.theme || '';
      var iframe = document.getElementById('articleContent');
      var doc = iframe.contentDocument;
      var kiwixJSSheet = doc ? doc.getElementById('kiwixJSTheme') || null : null;
      var appTheme = theme.replace(/_.*$/, '');
      var contentTheme = theme.replace(/^[^_]*/, '');
      var oldAppTheme = oldTheme.replace(/_.*$/, '');
      var oldContentTheme = oldTheme.replace(/^[^_]*/, '');
      if (oldAppTheme) htmlEl.classList.remove(oldAppTheme);
      footer.classList.remove(oldContentTheme || '_light');
      if (appTheme) htmlEl.classList.add(appTheme);
      footer.classList.add(contentTheme || '_light');
      htmlEl.dataset.theme = theme;
      var oldHelp = document.getElementById(oldTheme + '-help');
      if (oldHelp) oldHelp.style.display = 'none';
      var help = document.getElementById(theme + '-help');
      if (help) help.style.display = 'block';
      if (oldContentTheme && oldContentTheme !== contentTheme) {
          iframe.classList.remove(oldContentTheme);
          if (kiwixJSSheet) {
              kiwixJSSheet.disabled = true;
              kiwixJSSheet.parentNode.removeChild(kiwixJSSheet);
          }
      }
      if (contentTheme && (!kiwixJSSheet || !~kiwixJSSheet.href.search('kiwixJS' + contentTheme + '.css'))) {
          iframe.classList.add(contentTheme);
          var prefix = (window.location.protocol + '//' + window.location.host + window.location.pathname).replace(/\/[^/]*$/, '');
          if (doc) {
              var link = doc.createElement('link');
              link.setAttribute('id', 'kiwixJSTheme');
              link.setAttribute('rel', 'stylesheet');
              link.setAttribute('type', 'text/css');
              link.setAttribute('href', prefix + '/css/kiwixJS' + contentTheme + '.css');
              doc.head.appendChild(link);
          }
      }
      if (document.getElementById('liConfigureNav').classList.contains('active') && doc &&
          doc.title !== "Placeholder for injecting an article into the iframe") {
          showReturnLink();
      }
  }
  function showReturnLink() {
      var viewArticle = document.getElementById('viewArticle');
      viewArticle.style.display = 'block';
      viewArticle.addEventListener('click', function(e) { ... });
  }
  \<close>
  The function is modelled in the four parts that follow.
\<close>

text \<open>The classes of the shell root and of the footer, and the theme marker.\<close>

definition applyShellTheme :: "string \<Rightarrow> string \<Rightarrow> themePage \<Rightarrow> themePage outcome" where
  "applyShellTheme oldTheme theme st =
     andThen (if appThemeOf oldTheme \<noteq> []
              then changeClasses htmlClasses_update removeToken (appThemeOf oldTheme) st
              else (None, st))
       (\<lambda>st. andThen (changeClasses footerClasses_update removeToken
                          (orLight (contentThemeOf oldTheme)) st)
       (\<lambda>st. andThen (if appThemeOf theme \<noteq> []
                       then changeClasses htmlClasses_update addToken (appThemeOf theme) st
                       else (None, st))
       (\<lambda>st. andThen (changeClasses footerClasses_update addToken
                          (orLight (contentThemeOf theme)) st)
       (\<lambda>st. (None, st\<lparr>datasetTheme := Some theme\<rparr>)))))"

text \<open>The help panels.\<close>

definition applyHelp :: "string \<Rightarrow> string \<Rightarrow> themePage \<Rightarrow> themePage" where
  "applyHelp oldTheme theme st =
     setDisplay (theme @ ''-help'') ''block'' (setDisplay (oldTheme @ ''-help'') ''none'' st)"

text \<open>Taking the previous content theme off the frame and its stylesheet out of the document.\<close>

definition removeChild :: "themePage \<Rightarrow> themePage" where
  "removeChild st =
     st\<lparr>contentDocument :=
          map_option (\<lambda>doc. doc\<lparr>themeSheets := tl (themeSheets doc)\<rparr>) (contentDocument st)\<rparr>"

definition removeContentTheme ::
  "string \<Rightarrow> string \<Rightarrow> link option \<Rightarrow> themePage \<Rightarrow> themePage outcome" where
  "removeContentTheme oldTheme theme kiwixJSSheet st =
     (if contentThemeOf oldTheme \<noteq> [] \<and> contentThemeOf oldTheme \<noteq> contentThemeOf theme
      then andThen (changeClasses iframeClasses_update removeToken (contentThemeOf oldTheme) st)
             (\<lambda>st. (None, if kiwixJSSheet \<noteq> None then removeChild st else st))
      else (None, st))"

text \<open>
  Putting the requested content theme on the frame and its stylesheet into the document.
  The search is in \<^verbatim>\<open>kiwixJSSheet.href\<close>, the property.
\<close>

definition appendLink :: "string \<Rightarrow> themePage \<Rightarrow> themePage" where
  "appendLink hrefValue st =
     st\<lparr>contentDocument :=
          map_option
            (\<lambda>doc. doc\<lparr>themeSheets := themeSheets doc @ [\<lparr>linkHref = hrefValue, linkDisabled = False\<rparr>]\<rparr>)
            (contentDocument st)\<rparr>"

definition notAttached :: "string \<Rightarrow> link option \<Rightarrow> themePage \<Rightarrow> exn + bool" where
  "notAttached theme kiwixJSSheet st =
     (if contentThemeOf theme = [] then Inr False
      else case kiwixJSSheet of
             None \<Rightarrow> Inr True
           | Some l \<Rightarrow>
               (case search (hrefOf st (linkHref l)) (sheetFragment (contentThemeOf theme)) of
                  Inl e \<Rightarrow> Inl e
                | Inr found \<Rightarrow> Inr (found = None)))"

definition applyContentTheme :: "string \<Rightarrow> link option \<Rightarrow> themePage \<Rightarrow> themePage outcome" where
  "applyContentTheme theme kiwixJSSheet st =
     (case notAttached theme kiwixJSSheet st of
        Inl e \<Rightarrow> (Some e, st)
      | Inr False \<Rightarrow> (None, st)
      | Inr True \<Rightarrow>
          andThen (changeClasses iframeClasses_update addToken (contentThemeOf theme) st)
            (\<lambda>st. (None, appendLink (locationPrefix st @ ''/css/kiwixJS'' @ contentThemeOf theme @ ''.css'') st)))"

definition exposeReturnLink :: "themePage \<Rightarrow> themePage" where
  "exposeReturnLink st =
     (case contentDocument st of
        None \<Rightarrow> st
      | Some doc \<Rightarrow> if configureActive st \<and> docTitle doc \<noteq> placeholderTitle then showReturnLink st else st)"

definition applyAppTheme :: "string \<Rightarrow> themePage \<Rightarrow> themePage outcome" where
  "applyAppTheme theme st =
     (let oldTheme = oldThemeOf st;
          kiwixJSSheet = kiwixJSSheetOf st
      in andThen (applyShellTheme oldTheme theme st)
           (\<lambda>st. andThen (removeContentTheme oldTheme theme kiwixJSSheet (applyHelp oldTheme theme st))
           (\<lambda>st. andThen (applyContentTheme theme kiwixJSSheet st)
           (\<lambda>st. (None, exposeReturnLink st)))))"

section \<open>Example pages and sessions\<close>

text \<open>
  The download alert as the markup has it when the module is loaded: hidden, no listener, the
  one-time flag not set. The platform of the example clicks without throwing.
\<close>

definition downloadPageAtLoad :: downloadPage where
  "downloadPageAtLoad =
     \<lparr>downloadAlertDisplay = ''none'', downloadAlertDismiss = [], downloadAlertSetup = False,
      alertMessageHTML = [], alertMessageChildren = [], searchingArticlesDisplay = ''block'',
      blobStore = []\<rparr>"

definition examplePlatform :: platform where
  "examplePlatform = \<lparr>freshURL = ''http://localhost/0'', clickThrows = False, msSaveBlob = False\<rparr>"

definition exampleCall :: downloadCall where
  "exampleCall =
     \<lparr>callTitle = ''/docs/My File.txt'', callDownload = Flag True,
      callContentType = Some ''text/plain'', callContent = [72, 105],
      callPlatform = examplePlatform\<rparr>"

text \<open>
  A page with a hidden update banner on a platform with service workers, before the module is
  loaded, and the cache names of version 3.2.1 of the application.
\<close>

definition updatePageAtLoad :: updatePage where
  "updatePageAtLoad =
     \<lparr>serviceWorker = True,
      updateAlert = Some \<lparr>bannerDisplay = ''none'', bannerDismiss = []\<rparr>,
      pwaUpdateNeeded = False, paramsCacheNames = None, persistentMessage = [],
      settingsRequests = 0, keysRequests = []\<rparr>"

definition exampleNames :: cacheNames where
  "exampleNames =
     \<lparr>app = ''kiwixjs-appCache-3.2.1'', assets = ''kiwixjs-assetsCache'', error = False\<rparr>"

definition exampleKeys :: "string list" where
  "exampleKeys = [''kiwixjs-appCache-3.2.1'', ''kiwixjs-assetsCache'', ''kiwixjs-appCache-3.2.2'']"

text \<open>The state after one complete check that has found version 3.2.2 waiting.\<close>

definition updateFound :: updatePage where
  "updateFound = completeCheck exampleNames exampleKeys (loadModule updatePageAtLoad)"

text \<open>
  The claim about the prefix, in the words of the specification: the substring before the
  first digit sequence.
\<close>

definition substringBeforeDigits :: "string \<Rightarrow> string" where
  "substringBeforeDigits s = takeWhile (\<lambda>c. \<not> isDigit c) s"

text \<open>
  Cache names whose application identifier starts with a digit, others without digit, and
  others with a line feed after the version.
\<close>

definition datedNames :: cacheNames where
  "datedNames = \<lparr>app = ''2024-appCache-1.0'', assets = ''2024-assetsCache'', error = False\<rparr>"

definition plainNames :: cacheNames where
  "plainNames = \<lparr>app = ''kiwixjs-appCache'', assets = ''kiwixjs-assetsCache'', error = False\<rparr>"

definition brokenNames :: cacheNames where
  "brokenNames =
     \<lparr>app = ''kiwixjs-appCache-3.2.1'' @ [CHR 0x0A] @ ''beta'', assets = ''kiwixjs-assetsCache'',
      error = False\<rparr>"

text \<open>
  An image node on a platform with the decode engine and the attribute names of the DOM
  standard, a callback that throws when it is given a reference, and one that always returns.
\<close>

definition imageNode :: nodePage where
  "imageNode =
     \<lparr>webpMachine = True, acceptsName = validAttributeLocalName, nodeAttributes = Map.empty,
      loadListeners = [], objectURLs = [], decodings = [], journal = []\<rparr>"

definition throwsOnReference :: callback where
  "throwsOnReference arg = (case arg of None \<Rightarrow> Returns | Some uri \<Rightarrow> Throws)"

definition returning :: callback where
  "returning arg = Returns"

section \<open>Selectors and pages of the theme engine\<close>

text \<open>
  The selectors for which the engine is written: no whitespace (the parts of a selector are
  class tokens), and a content theme that, put into the filename fragment, is a pattern of
  characters that stand for themselves or of \<^verbatim>\<open>.\<close>.
\<close>

definition plainTheme :: "string \<Rightarrow> bool" where
  "plainTheme theme =
     (\<not> list_ex asciiWhitespace theme
      \<and> \<not> list_ex syntaxCharacter (contentThemeOf theme)
      \<and> CHR ''^'' \<notin> set (contentThemeOf theme) \<and> CHR ''$'' \<notin> set (contentThemeOf theme))"



text \<open>
  The property \<^verbatim>\<open>href\<close> on the pages of the examples, after the URL standard, for an
  absolute \<^verbatim>\<open>http\<close> or \<^verbatim>\<open>https\<close> URL whose authority is in its normal form already, as the
  one of the location is. The parser strips leading and trailing spaces and control characters,
  removes tabs and newlines, and cuts the string into path (where a backslash stands for \<^verbatim>\<open>/\<close>),
  query and fragment; it removes the dot segments of the path and percent-encodes in each
  part the characters of the percent-encode set of that part. A value of another form is
  returned as it is.
\<close>

definition hexDigit :: "nat \<Rightarrow> char" where
  "hexDigit n = ''0123456789ABCDEF'' ! n"

text \<open>The bytes of a code point below 256 in UTF-8, and a byte percent-encoded.\<close>

definition utf8 :: "char \<Rightarrow> nat list" where
  "utf8 c = (if (of_char c :: nat) < 128 then [of_char c]
             else [192 + of_char c div 64, 128 + of_char c mod 64])"

definition percentByte :: "nat \<Rightarrow> string" where
  "percentByte b = [CHR ''%'', hexDigit (b div 16), hexDigit (b mod 16)]"

definition percentEncoded :: "(char \<Rightarrow> bool) \<Rightarrow> string \<Rightarrow> string" where
  "percentEncoded encodeSet s =
     concat (map (\<lambda>c. if encodeSet c then concat (map percentByte (utf8 c)) else [c]) s)"

definition c0ControlSet :: "char \<Rightarrow> bool" where
  "c0ControlSet c = ((of_char c :: nat) < 32 \<or> 126 < (of_char c :: nat))"

definition fragmentSet :: "char \<Rightarrow> bool" where
  "fragmentSet c = (c0ControlSet c \<or> c \<in> set [CHR 0x20, CHR 0x22, CHR ''<'', CHR ''>'', CHR 0x60])"

definition specialQuerySet :: "char \<Rightarrow> bool" where
  "specialQuerySet c =
     (c0ControlSet c \<or> c \<in> set [CHR 0x20, CHR 0x22, CHR ''#'', CHR ''<'', CHR ''>'', CHR 0x27])"

definition pathSet :: "char \<Rightarrow> bool" where
  "pathSet c =
     (c0ControlSet c
      \<or> c \<in> set [CHR 0x20, CHR 0x22, CHR ''#'', CHR ''<'', CHR ''>'',
                 CHR ''?'', CHR ''^'', CHR 0x60, CHR ''{'', CHR ''}''])"

fun splitOn :: "(char \<Rightarrow> bool) \<Rightarrow> string \<Rightarrow> string list" where
  "splitOn sep [] = [[]]"
| "splitOn sep (c # cs) =
     (if sep c then [] # splitOn sep cs
      else (case splitOn sep cs of [] \<Rightarrow> [[c]] | seg # segs \<Rightarrow> (c # seg) # segs))"

definition singleDot :: "string \<Rightarrow> bool" where
  "singleDot seg = (seg \<in> set [''.'', ''%2e'', ''%2E''])"

definition doubleDot :: "string \<Rightarrow> bool" where
  "doubleDot seg =
     (seg \<in> set [''..'', ''.%2e'', ''.%2E'', ''%2e.'', ''%2E.'',
                 ''%2e%2e'', ''%2e%2E'', ''%2E%2e'', ''%2E%2E''])"

text \<open>
  The segments of the path from left to right: a double-dot segment takes the last segment
  off the path, a single-dot segment is skipped, and either of them, when it is the last
  segment, leaves an empty segment behind.
\<close>

fun pathOf :: "string list \<Rightarrow> string list \<Rightarrow> string list" where
  "pathOf path [] = path"
| "pathOf path (seg # segs) =
     (if doubleDot seg then pathOf (butlast path @ (if segs = [] then [[]] else [])) segs
      else if singleDot seg then pathOf (path @ (if segs = [] then [[]] else [])) segs
      else pathOf (path @ [percentEncoded pathSet seg]) segs)"

definition trimmed :: "string \<Rightarrow> string" where
  "trimmed v =
     rev (dropWhile (\<lambda>c. (of_char c :: nat) \<le> 32) (rev (dropWhile (\<lambda>c. (of_char c :: nat) \<le> 32) v)))"

text \<open>What follows the scheme and \<^verbatim>\<open>//\<close>: authority, path, query and fragment.\<close>

definition afterScheme :: "string \<Rightarrow> string" where
  "afterScheme r =
     (let inAuthority = (\<lambda>c. c \<notin> set [CHR ''/'', CHR 0x5C, CHR ''?'', CHR ''#'']);
          authority = takeWhile inAuthority r;
          afterAuthority = dropWhile inAuthority r;
          inPath = (\<lambda>c. c \<noteq> CHR ''?'' \<and> c \<noteq> CHR ''#'');
          path = takeWhile inPath afterAuthority;
          afterPath = dropWhile inPath afterAuthority;
          query = takeWhile (\<lambda>c. c \<noteq> CHR ''#'') afterPath;
          fragment = dropWhile (\<lambda>c. c \<noteq> CHR ''#'') afterPath
      in authority
         @ concat (map (\<lambda>seg. CHR ''/'' # seg)
             (pathOf [] (splitOn (\<lambda>c. c = CHR ''/'' \<or> c = CHR 0x5C) (drop 1 path))))
         @ (if query = [] then [] else CHR ''?'' # percentEncoded specialQuerySet (tl query))
         @ (if fragment = [] then [] else CHR ''#'' # percentEncoded fragmentSet (tl fragment)))"

definition standardHref :: "string \<Rightarrow> string" where
  "standardHref v =
     (let u = filter (\<lambda>c. c \<notin> set [CHR 0x09, CHR 0x0A, CHR 0x0D]) (trimmed v)
      in if prefix ''https://'' u then ''https://'' @ afterScheme (drop 8 u)
         else if prefix ''http://'' u then ''http://'' @ afterScheme (drop 7 u)
         else v)"

text \<open>
  A page in the configuration tab with an article loaded and no theme applied yet, and the
  same page with a stylesheet left in the document although the marker has no content theme.
\<close>

definition configurationPage :: themePage where
  "configurationPage =
     \<lparr>htmlClasses = [], datasetTheme = None, footerClasses = [], iframeClasses = [],
      contentDocument = Some \<lparr>docTitle = ''Ray Charles'', themeSheets = []\<rparr>,
      displayOf = [''dark_invert-help'' \<mapsto> ''none'', ''dark_mwInvert-help'' \<mapsto> ''none''],
      configureActive = True, viewArticleDisplay = ''none'', viewArticleClick = [],
      locationProtocol = ''https:'', locationHost = ''kiwix.example.org'',
      locationPathname = ''/www/index.html'', hrefOf = standardHref\<rparr>"



section \<open>Properties\<close>

subsection \<open>The replacement up to the end of the string\<close>

lemma replaceToEnd_split:
  "\<exists>suf. s = replaceToEnd F R s @ suf \<and> (suf = [] \<or> (F (hd suf) \<and> list_all R (tl suf)))"
proof (induction s)
  case Nil
  show ?case by simp
next
  case (Cons c cs)
  show ?case
  proof (cases "F c \<and> list_all R cs")
    case True
    then have "c # cs = replaceToEnd F R (c # cs) @ (c # cs) \<and> F (hd (c # cs)) \<and> list_all R (tl (c # cs))"
      by simp
    then show ?thesis by blast
  next
    case False
    from Cons.IH obtain suf where
      "cs = replaceToEnd F R cs @ suf" "suf = [] \<or> (F (hd suf) \<and> list_all R (tl suf))"
      by blast
    with False have "c # cs = replaceToEnd F R (c # cs) @ suf" by auto
    with \<open>suf = [] \<or> _\<close> show ?thesis by blast
  qed
qed

lemma replaceToEnd_unchanged_iff:
  "replaceToEnd F R s = s \<longleftrightarrow> \<not> (\<exists>a c b. s = a @ c # b \<and> F c \<and> list_all R b)"
proof (induction s)
  case Nil
  show ?case by simp
next
  case (Cons x xs)
  show ?case
  proof (cases "F x \<and> list_all R xs")
    case True
    then have "x # xs = [] @ x # xs \<and> F x \<and> list_all R xs" by simp
    then have "\<exists>a c b. x # xs = a @ c # b \<and> F c \<and> list_all R b" by blast
    with True show ?thesis by simp
  next
    case False
    have "(\<exists>a c b. x # xs = a @ c # b \<and> F c \<and> list_all R b) \<longleftrightarrow>
          (\<exists>a c b. xs = a @ c # b \<and> F c \<and> list_all R b)" (is "?L \<longleftrightarrow> ?R")
    proof
      assume ?L
      then obtain a c b where h: "x # xs = a @ c # b" "F c" "list_all R b" by blast
      show ?R
      proof (cases a)
        case Nil
        with h False show ?thesis by simp
      next
        case (Cons y ys)
        with h have "xs = ys @ c # b" by simp
        with h show ?thesis by blast
      qed
    next
      assume ?R
      then obtain a c b where "xs = a @ c # b" "F c" "list_all R b" by blast
      then have "x # xs = (x # a) @ c # b \<and> F c \<and> list_all R b" by simp
      then show ?L by blast
    qed
    moreover from False have "replaceToEnd F R (x # xs) = x # replaceToEnd F R xs"
      by auto
    ultimately show ?thesis using Cons.IH by simp
  qed
qed

lemma replaceToEnd_changed:
  assumes "s = a @ c # b" "F c" "list_all R b"
  shows "replaceToEnd F R s \<noteq> s"
proof -
  from assms have "\<exists>a c b. s = a @ c # b \<and> F c \<and> list_all R b" by blast
  then show ?thesis by (simp only: replaceToEnd_unchanged_iff not_not)
qed

subsection \<open>removeUrlParameters returns a prefix of its input\<close>

text \<open>
  C10. For every input string, the output of \<^verbatim>\<open>removeUrlParameters\<close> is a prefix of the
  input. What is removed is a trailing anchor followed by a trailing querystring: the
  querystring, when there is one, starts at the last \<^verbatim>\<open>?\<close> of the input (and there is one
  exactly when the input has a \<^verbatim>\<open>?\<close>); the anchor, when there is one, starts at a \<^verbatim>\<open>#\<close> of
  what is left and has no further \<^verbatim>\<open>#\<close> and no \<^verbatim>\<open>;\<close>. Nothing is inserted or reordered.
\<close>

theorem removeUrlParameters_prefix:
  "\<exists>anchor query.
     url = removeUrlParameters url @ anchor @ query
     \<and> removeQuerystring url = removeUrlParameters url @ anchor
     \<and> (query = [] \<or> (hd query = CHR ''?'' \<and> CHR ''?'' \<notin> set (tl query)))
     \<and> (query = [] \<longleftrightarrow> CHR ''?'' \<notin> set url)
     \<and> (anchor = [] \<or>
          (hd anchor = CHR ''#'' \<and> CHR ''#'' \<notin> set (tl anchor) \<and> CHR '';'' \<notin> set (tl anchor)))
     \<and> prefix (removeUrlParameters url) url"
proof -
  let ?Q = "\<lambda>c. c = CHR ''?''" and ?NQ = "\<lambda>c. c \<noteq> CHR ''?''"
  let ?A = "\<lambda>c. c = CHR ''#''" and ?NA = "\<lambda>c. c \<noteq> CHR ''#'' \<and> c \<noteq> CHR '';''"
  obtain query where q: "url = removeQuerystring url @ query"
    "query = [] \<or> (?Q (hd query) \<and> list_all ?NQ (tl query))"
    using replaceToEnd_split [of url ?Q ?NQ] unfolding removeQuerystring_def by blast
  obtain anchor where a: "removeQuerystring url = removeUrlParameters url @ anchor"
    "anchor = [] \<or> (?A (hd anchor) \<and> list_all ?NA (tl anchor))"
    using replaceToEnd_split [of "removeQuerystring url" ?A ?NA]
    unfolding removeUrlParameters_def removeAnchor_def by blast
  have whole: "url = removeUrlParameters url @ anchor @ query"
    using q(1) a(1) by simp
  have qshape: "query = [] \<or> (hd query = CHR ''?'' \<and> CHR ''?'' \<notin> set (tl query))"
    using q(2) by (auto simp: list_all_iff)
  have ashape: "anchor = [] \<or>
      (hd anchor = CHR ''#'' \<and> CHR ''#'' \<notin> set (tl anchor) \<and> CHR '';'' \<notin> set (tl anchor))"
    using a(2) by (auto simp: list_all_iff)
  have qiff: "query = [] \<longleftrightarrow> CHR ''?'' \<notin> set url"
  proof
    assume "query = []"
    with q(1) have unch: "replaceToEnd ?Q ?NQ url = url" by (simp add: removeQuerystring_def)
    show "CHR ''?'' \<notin> set url"
    proof
      assume "CHR ''?'' \<in> set url"
      then have "CHR ''?'' \<in> set (rev url)" by simp
      then obtain ys zs where r: "rev url = ys @ CHR ''?'' # zs" "CHR ''?'' \<notin> set ys"
        by (meson split_list_first)
      from r(1) have "rev (rev url) = rev (ys @ CHR ''?'' # zs)" by simp
      then have u: "url = rev zs @ CHR ''?'' # rev ys" by simp
      have l: "list_all ?NQ (rev ys)" using r(2) by (auto simp: list_all_iff)
      have "replaceToEnd ?Q ?NQ url \<noteq> url"
        by (rule replaceToEnd_changed [OF u _ l]) simp
      with unch show False by simp
    qed
  next
    assume "CHR ''?'' \<notin> set url"
    show "query = []"
    proof (rule ccontr)
      assume "query \<noteq> []"
      with q(2) have "hd query = CHR ''?''" by simp
      with \<open>query \<noteq> []\<close> have "CHR ''?'' \<in> set query" by (metis hd_in_set)
      with q(1) have "CHR ''?'' \<in> set url" by (metis Un_iff set_append)
      with \<open>CHR ''?'' \<notin> set url\<close> show False by simp
    qed
  qed
  have "prefix (removeUrlParameters url) url"
    using whole by (rule prefixI)
  with whole a(1) qshape qiff ashape show ?thesis by blast
qed

subsection \<open>Prefixes, digits and the prefix of the cache keys\<close>

lemma indexOf_zero_iff: "indexOf s t = 0 \<longleftrightarrow> prefix t s"
  by (cases s) (auto simp: Let_def)

lemma removeFirst_prefix: "prefix t s \<Longrightarrow> removeFirst s t = drop (length t) s"
  using indexOf_zero_iff [of s t] by (simp add: removeFirst_def)

lemma isDigit_cases:
  "isDigit c \<Longrightarrow> c = CHR ''0'' \<or> c = CHR ''1'' \<or> c = CHR ''2'' \<or> c = CHR ''3'' \<or> c = CHR ''4''
     \<or> c = CHR ''5'' \<or> c = CHR ''6'' \<or> c = CHR ''7'' \<or> c = CHR ''8'' \<or> c = CHR ''9''"
  by (simp add: isDigit_def)

lemma isDigit_not_lineTerminator:
  assumes "isDigit c"
  shows "\<not> lineTerminator c"
proof -
  from isDigit_cases [OF assms] show ?thesis
    by (elim disjE) (simp_all add: lineTerminator_def)
qed

lemma cachePrefix_versionStamped:
  assumes "versionStamped s"
  shows "cachePrefix s = takeWhile (\<lambda>c. \<not> isDigit c) s"
proof -
  let ?P = "\<lambda>c. \<not> isDigit c"
  let ?name = "takeWhile ?P s" and ?version = "dropWhile ?P s"
  from assms have name: "?name \<noteq> []" and version: "?version \<noteq> []"
    and plain: "list_all (\<lambda>c. \<not> lineTerminator c) ?version"
    by (simp_all add: versionStamped_def)
  from name obtain k where k: "length ?name = Suc k"
    by (metis length_0_conv not0_implies_Suc)
  have d: "drop (Suc k) s = ?version" by (metis k dropWhile_eq_drop)
  have t: "take (Suc k) s = ?name" by (metis k takeWhile_eq_take)
  from version obtain c cs where v: "?version = c # cs"
    by (metis list.exhaust)
  have "\<not> ?P (hd ?version)" using version by (rule hd_dropWhile)
  with v have "isDigit c" by simp
  then have "\<not> lineTerminator c" by (rule isDigit_not_lineTerminator)
  moreover have "dropWhile (\<lambda>d. \<not> lineTerminator d) ?version = []"
    using plain by (simp add: list_all_iff)
  ultimately have "groupAt s (Suc k) = Some ?name"
    using d t v by (simp add: groupAt_def)
  then show ?thesis using k by (simp add: cachePrefix_def)
qed

lemma inspectKey_skip: "\<not> qualifies cn key \<Longrightarrow> inspectKey cn (cachePrefix (app cn)) key st = st"
  by (auto simp: inspectKey_def qualifies_def indexOf_zero_iff)

lemma inspectKey_flag: "pwaUpdateNeeded st \<Longrightarrow> pwaUpdateNeeded (inspectKey cn pre key st)"
  by (simp add: inspectKey_def setBannerDisplay_def)

lemma fold_inspectKey_flag:
  "pwaUpdateNeeded st \<Longrightarrow> pwaUpdateNeeded (fold (inspectKey cn pre) keyList st)"
  by (induction keyList arbitrary: st) (simp_all add: inspectKey_flag)

lemma keysContinuation_flag: "pwaUpdateNeeded st \<Longrightarrow> pwaUpdateNeeded (keysContinuation cn keyList st)"
  by (simp add: keysContinuation_def fold_inspectKey_flag setBannerDisplay_def split: option.splits)

lemma step_flag: "pwaUpdateNeeded st \<Longrightarrow> pwaUpdateNeeded (step e st)"
  by (cases e)
     (simp_all add: checkUpdateStatus_def cacheNamesCallback_def keysContinuation_flag
        split: nat.splits option.splits)

lemma run_flag: "pwaUpdateNeeded st \<Longrightarrow> pwaUpdateNeeded (run es st)"
  unfolding run_def by (induction es arbitrary: st) (simp_all add: step_flag)

lemma flagSettings_after: "pwaUpdateNeeded st \<Longrightarrow> flagSettings es st = 0"
  by (induction es arbitrary: st) (simp_all add: step_flag)

lemma flagSettings_once: "flagSettings es st \<le> 1"
proof (induction es arbitrary: st)
  case Nil
  show ?case by simp
next
  case (Cons e es)
  show ?case
  proof (cases "pwaUpdateNeeded (step e st)")
    case True
    then show ?thesis by (simp add: flagSettings_after)
  next
    case False
    with Cons.IH [of "step e st"] show ?thesis by simp
  qed
qed

lemma step_idle:
  "pwaUpdateNeeded st \<Longrightarrow> settingsRequests st = 0 \<Longrightarrow> keysRequests st = [] \<Longrightarrow> step e st = st"
  by (cases e) (simp_all add: checkUpdateStatus_def)

lemma run_idle:
  "pwaUpdateNeeded st \<Longrightarrow> settingsRequests st = 0 \<Longrightarrow> keysRequests st = [] \<Longrightarrow> run es st = st"
  unfolding run_def by (induction es) (simp_all add: step_idle)

subsection \<open>The banner and the listeners through a run\<close>

lemma inspectKey_qualifies:
  assumes "updateAlert st = Some b" "qualifies cn key"
  shows "inspectKey cn (cachePrefix (app cn)) key st =
     st\<lparr>pwaUpdateNeeded := True, updateAlert := Some (b\<lparr>bannerDisplay := ''block''\<rparr>),
        persistentMessage := ''Version '' @ drop (length (cachePrefix (app cn))) key
           @ '' is ready to install. (Re-launch app to install.)''\<rparr>"
proof -
  from assms(2) have p: "prefix (cachePrefix (app cn)) key" and n: "key \<noteq> app cn" "key \<noteq> assets cn"
    by (simp_all add: qualifies_def)
  from p have "indexOf key (cachePrefix (app cn)) = 0" by (simp add: indexOf_zero_iff)
  with n p assms(1) show ?thesis
    by (simp add: inspectKey_def setBannerDisplay_def removeFirst_prefix)
qed

lemma inspectKey_display:
  assumes "updateAlert st = Some b"
  shows "map_option bannerDisplay (updateAlert (inspectKey cn (cachePrefix (app cn)) key st)) =
     Some (if qualifies cn key then ''block'' else bannerDisplay b)"
proof (cases "qualifies cn key")
  case True
  with assms show ?thesis by (simp add: inspectKey_qualifies)
next
  case False
  with assms show ?thesis by (simp add: inspectKey_skip)
qed

lemma fold_inspectKey_display:
  "updateAlert st = Some b \<Longrightarrow>
   map_option bannerDisplay (updateAlert (fold (inspectKey cn (cachePrefix (app cn))) keyList st)) =
     Some (if list_ex (qualifies cn) keyList then ''block'' else bannerDisplay b)"
proof (induction keyList arbitrary: st b)
  case Nil
  then show ?case by simp
next
  case (Cons key keyList)
  let ?st = "inspectKey cn (cachePrefix (app cn)) key st"
  from inspectKey_display [OF Cons.prems, of cn key]
  obtain b' where b': "updateAlert ?st = Some b'"
    "bannerDisplay b' = (if qualifies cn key then ''block'' else bannerDisplay b)"
    by auto
  from Cons.IH [OF b'(1)] b'(2) show ?case by auto
qed

lemma keysContinuation_display:
  assumes "updateAlert st = Some b"
  shows "map_option bannerDisplay (updateAlert (keysContinuation cn keyList st)) =
     Some (if list_ex (qualifies cn) keyList then ''block'' else ''none'')"
proof -
  have "updateAlert (setBannerDisplay ''none'' st) = Some (b\<lparr>bannerDisplay := ''none''\<rparr>)"
    using assms by (simp add: setBannerDisplay_def)
  from fold_inspectKey_display [OF this, of cn keyList] assms show ?thesis
    by (auto simp: keysContinuation_def)
qed

lemma inspectKey_dismiss:
  "map_option bannerDismiss (updateAlert (inspectKey cn pre key st)) =
   map_option bannerDismiss (updateAlert st)"
  by (cases "updateAlert st") (simp_all add: inspectKey_def setBannerDisplay_def)

lemma fold_inspectKey_dismiss:
  "map_option bannerDismiss (updateAlert (fold (inspectKey cn pre) keyList st)) =
   map_option bannerDismiss (updateAlert st)"
  by (induction keyList arbitrary: st) (simp_all add: inspectKey_dismiss)

lemma keysContinuation_dismiss:
  "map_option bannerDismiss (updateAlert (keysContinuation cn keyList st)) =
   map_option bannerDismiss (updateAlert st)"
  by (cases "updateAlert st")
     (simp_all add: keysContinuation_def fold_inspectKey_dismiss setBannerDisplay_def)

lemma step_dismiss:
  "map_option bannerDismiss (updateAlert (step e st)) = map_option bannerDismiss (updateAlert st)"
  by (cases e)
     (simp_all add: checkUpdateStatus_def cacheNamesCallback_def keysContinuation_dismiss
        split: nat.splits option.splits)

lemma run_dismiss:
  "map_option bannerDismiss (updateAlert (run es st)) = map_option bannerDismiss (updateAlert st)"
  unfolding run_def by (induction es arbitrary: st) (simp_all add: step_dismiss)

lemma downloadStep_setup: "downloadAlertSetup (downloadStep c st)"
  by (simp add: downloadStep_def displayFileDownloadAlert_def revealDownloadAlert_def Let_def
        split: sum.splits)

lemma downloadStep_dismiss:
  "downloadAlertDismiss (downloadStep c st) =
     (if downloadAlertSetup st then downloadAlertDismiss st else downloadAlertDismiss st @ [HideBanner])"
  by (simp add: downloadStep_def displayFileDownloadAlert_def revealDownloadAlert_def Let_def
        split: sum.splits)

lemma downloadSession_after_setup:
  "downloadAlertSetup st \<Longrightarrow> downloadAlertDismiss (downloadSession cs st) = downloadAlertDismiss st"
  unfolding downloadSession_def
  by (induction cs arbitrary: st) (simp_all add: downloadStep_setup downloadStep_dismiss)

lemma downloadSession_dismiss:
  assumes "\<not> downloadAlertSetup st"
  shows "downloadAlertDismiss (downloadSession cs st) =
     (if cs = [] then downloadAlertDismiss st else downloadAlertDismiss st @ [HideBanner])"
proof (cases cs)
  case Nil
  then show ?thesis by (simp add: downloadSession_def)
next
  case (Cons c cs')
  have "downloadAlertDismiss (downloadSession cs' (downloadStep c st)) =
        downloadAlertDismiss (downloadStep c st)"
    by (rule downloadSession_after_setup) (rule downloadStep_setup)
  with Cons assms show ?thesis by (simp add: downloadSession_def downloadStep_dismiss)
qed

subsection \<open>The filename of the download alert\<close>

text \<open>
  C1, as stated: the call with title \<^verbatim>\<open>/docs/My File.txt\<close>, directive \<^verbatim>\<open>true\<close> and content
  type \<^verbatim>\<open>text/plain\<close> derives the filename \<^verbatim>\<open>My_File.txt\<close>. It does not: the space is
  not one of the characters that are replaced, and the filename is \<^verbatim>\<open>My File.txt\<close>.
\<close>

theorem displayFileDownloadAlert_filename_counterexample:
  "map download (alertMessageChildren (snd (displayFileDownloadAlert ''/docs/My File.txt''
      (Flag True) (Some ''text/plain'') [72, 105] examplePlatform downloadPageAtLoad)))
     = [''My File.txt'']
   \<and> map download (alertMessageChildren (snd (displayFileDownloadAlert ''/docs/My File.txt''
      (Flag True) (Some ''text/plain'') [72, 105] examplePlatform downloadPageAtLoad)))
     \<noteq> [''My_File.txt'']"
  by (simp add: displayFileDownloadAlert_def saveFilename_def makeSafe_def filenameFromTitle_def
        lineTerminator_def segmentAt_def unsafeCharacters_def Let_def)

text \<open>
  C1, as amended: for any content, platform and page, the call with title
  \<^verbatim>\<open>/docs/My File.txt\<close>, directive \<^verbatim>\<open>true\<close> and content type \<^verbatim>\<open>text/plain\<close> returns
  without exception, the link that it leaves in the alert message saves under the filename
  \<^verbatim>\<open>My File.txt\<close> (the trailing path segment; it has none of the characters
  \<^verbatim>\<open>/ \ : * ? " < > |\<close> that are replaced by an underscore), and the display style of the
  download alert is \<^verbatim>\<open>block\<close>.
\<close>

theorem displayFileDownloadAlert_filename:
  "fst (displayFileDownloadAlert ''/docs/My File.txt'' (Flag True) (Some ''text/plain'')
          content pf st) = None
   \<and> map download (alertMessageChildren (snd (displayFileDownloadAlert ''/docs/My File.txt''
          (Flag True) (Some ''text/plain'') content pf st))) = [''My File.txt'']
   \<and> map anchorHTML (alertMessageChildren (snd (displayFileDownloadAlert ''/docs/My File.txt''
          (Flag True) (Some ''text/plain'') content pf st))) = [''My File.txt'']
   \<and> downloadAlertDisplay (snd (displayFileDownloadAlert ''/docs/My File.txt''
          (Flag True) (Some ''text/plain'') content pf st)) = ''block''"
proof -
  have "saveFilename ''/docs/My File.txt'' (Flag True) = Inr ''My File.txt''"
    by (simp add: saveFilename_def makeSafe_def filenameFromTitle_def lineTerminator_def
          segmentAt_def unsafeCharacters_def)
  then show ?thesis
    by (simp add: displayFileDownloadAlert_def revealDownloadAlert_def Let_def)
qed

subsection \<open>The pending-update flag\<close>

text \<open>
  C2. Once the pending-update flag is set, a call of \<^verbatim>\<open>checkUpdateStatus\<close> changes nothing
  and makes no request; the flag stays set whatever happens later, calls as well as the
  callbacks of requests made before; with no such request outstanding nothing changes any
  more, in particular a check with cache names and keys that hold a newer version. In any
  run from any state the flag passes from false to true at most once.
\<close>

theorem pwaUpdateNeeded_stays:
  assumes "pwaUpdateNeeded st"
  shows "checkUpdateStatus st = st
     \<and> pwaUpdateNeeded (run es st)
     \<and> (settingsRequests st = 0 \<and> keysRequests st = [] \<longrightarrow>
          run es st = st \<and> completeCheck cn keyList st = st)
     \<and> flagSettings es st = 0
     \<and> flagSettings es' st' \<le> 1"
proof -
  have "checkUpdateStatus st = st" using assms by (simp add: checkUpdateStatus_def)
  moreover have "pwaUpdateNeeded (run es st)" using assms by (rule run_flag)
  moreover have "settingsRequests st = 0 \<and> keysRequests st = [] \<longrightarrow>
      run es st = st \<and> completeCheck cn keyList st = st"
    using assms by (simp add: run_idle completeCheck_def)
  moreover have "flagSettings es st = 0" using assms by (rule flagSettings_after)
  moreover have "flagSettings es' st' \<le> 1" by (rule flagSettings_once)
  ultimately show ?thesis by blast
qed

theorem pwaUpdateNeeded_stays_witness:
  "pwaUpdateNeeded updateFound
   \<and> checkUpdateStatus updateFound = updateFound
   \<and> pwaUpdateNeeded (run [CheckUpdateStatus, CacheNamesCallback None] updateFound)
   \<and> settingsRequests updateFound = 0 \<and> keysRequests updateFound = []
   \<and> completeCheck exampleNames [''kiwixjs-appCache-3.2.3''] updateFound = updateFound
   \<and> flagSettings
        [CheckUpdateStatus, CacheNamesCallback (Some exampleNames), KeysResolved 0 exampleKeys,
         CheckUpdateStatus, CacheNamesCallback (Some exampleNames), KeysResolved 0 exampleKeys]
        (loadModule updatePageAtLoad) \<le> 1"
proof -
  have flag: "pwaUpdateNeeded updateFound" by code_simp
  have idle: "settingsRequests updateFound = 0" "keysRequests updateFound = []"
    by code_simp+
  note stays = pwaUpdateNeeded_stays [OF flag,
      of "[CheckUpdateStatus, CacheNamesCallback None]" exampleNames "[''kiwixjs-appCache-3.2.3'']"
         "[CheckUpdateStatus, CacheNamesCallback (Some exampleNames), KeysResolved 0 exampleKeys,
           CheckUpdateStatus, CacheNamesCallback (Some exampleNames), KeysResolved 0 exampleKeys]"
         "loadModule updatePageAtLoad"]
  from stays idle flag show ?thesis by blast
qed

subsection \<open>The keys of the cache storage\<close>

text \<open>
  C3, as stated: the prefix against which the keys are tested is the substring of the
  application's cache identifier before its first digit sequence. For an identifier that
  starts with a digit the pattern does not match and the prefix is the whole identifier: the
  key \<^verbatim>\<open>other\<close> starts with the (empty) substring before the digits and is neither of the
  two identifiers, yet it is skipped. For an identifier without a digit the prefix is the
  identifier without its last character: the key \<^verbatim>\<open>kiwixjs-appCachX\<close> does not start with
  the substring before the digits (the whole identifier), yet it sets the flag. For an
  identifier with a line feed after the version, what follows the line feed stays in the
  prefix: the key of version 3.2.2 starts with the substring before the digits, yet it is
  skipped.
\<close>

theorem inspectKey_prefix_counterexample:
  "''other'' \<noteq> app datedNames \<and> ''other'' \<noteq> assets datedNames
   \<and> prefix (substringBeforeDigits (app datedNames)) ''other''
   \<and> inspectKey datedNames (cachePrefix (app datedNames)) ''other'' updatePageAtLoad
       = updatePageAtLoad
   \<and> \<not> prefix (substringBeforeDigits (app plainNames)) ''kiwixjs-appCachX''
   \<and> pwaUpdateNeeded
       (inspectKey plainNames (cachePrefix (app plainNames)) ''kiwixjs-appCachX'' updatePageAtLoad)
   \<and> ''kiwixjs-appCache-3.2.2'' \<noteq> app brokenNames \<and> ''kiwixjs-appCache-3.2.2'' \<noteq> assets brokenNames
   \<and> prefix (substringBeforeDigits (app brokenNames)) ''kiwixjs-appCache-3.2.2''
   \<and> inspectKey brokenNames (cachePrefix (app brokenNames)) ''kiwixjs-appCache-3.2.2'' updatePageAtLoad
       = updatePageAtLoad"
  by code_simp

text \<open>
  C3, as amended. The prefix is what \<^verbatim>\<open>replace\<close> makes of the application's cache
  identifier; it is the substring before the first digit sequence when the identifier is a
  non-empty name without digits followed by a version that starts with a digit and has no line
  terminator. With the banner on the page, for every key: a key equal to the application's or
  the assets' cache identifier is skipped; a key that does not start with the prefix is
  skipped; any other key sets the pending-update flag, sets the banner's display style to
  \<^verbatim>\<open>block\<close>, and writes the key without the prefix, between \<^verbatim>\<open>Version\<close> and the
  invitation to install, into the persistent message.
\<close>

theorem inspectKey_cases:
  assumes "updateAlert st = Some b"
  shows "(key = app cn \<or> key = assets cn \<longrightarrow> inspectKey cn (cachePrefix (app cn)) key st = st)
     \<and> (\<not> prefix (cachePrefix (app cn)) key \<longrightarrow> inspectKey cn (cachePrefix (app cn)) key st = st)
     \<and> (key \<noteq> app cn \<and> key \<noteq> assets cn \<and> prefix (cachePrefix (app cn)) key \<longrightarrow>
          inspectKey cn (cachePrefix (app cn)) key st =
            st\<lparr>pwaUpdateNeeded := True, updateAlert := Some (b\<lparr>bannerDisplay := ''block''\<rparr>),
               persistentMessage := ''Version '' @ drop (length (cachePrefix (app cn))) key
                 @ '' is ready to install. (Re-launch app to install.)''\<rparr>)
     \<and> (versionStamped (app cn) \<longrightarrow> cachePrefix (app cn) = substringBeforeDigits (app cn))"
proof -
  have "key = app cn \<or> key = assets cn \<longrightarrow> inspectKey cn (cachePrefix (app cn)) key st = st"
    by (simp add: inspectKey_skip qualifies_def)
  moreover have "\<not> prefix (cachePrefix (app cn)) key \<longrightarrow>
      inspectKey cn (cachePrefix (app cn)) key st = st"
    by (simp add: inspectKey_skip qualifies_def)
  moreover have "key \<noteq> app cn \<and> key \<noteq> assets cn \<and> prefix (cachePrefix (app cn)) key \<longrightarrow>
      inspectKey cn (cachePrefix (app cn)) key st =
        st\<lparr>pwaUpdateNeeded := True, updateAlert := Some (b\<lparr>bannerDisplay := ''block''\<rparr>),
           persistentMessage := ''Version '' @ drop (length (cachePrefix (app cn))) key
             @ '' is ready to install. (Re-launch app to install.)''\<rparr>"
    using inspectKey_qualifies [OF assms, of cn key] by (simp add: qualifies_def)
  moreover have "versionStamped (app cn) \<longrightarrow> cachePrefix (app cn) = substringBeforeDigits (app cn)"
    by (simp add: cachePrefix_versionStamped substringBeforeDigits_def)
  ultimately show ?thesis by blast
qed

theorem inspectKey_cases_witness:
  "updateAlert updatePageAtLoad = Some \<lparr>bannerDisplay = ''none'', bannerDismiss = []\<rparr>
   \<and> inspectKey exampleNames (cachePrefix (app exampleNames)) ''kiwixjs-appCache-3.2.1''
       updatePageAtLoad = updatePageAtLoad
   \<and> \<not> prefix (cachePrefix (app exampleNames)) ''otherApp-cache-7''
   \<and> inspectKey exampleNames (cachePrefix (app exampleNames)) ''otherApp-cache-7''
       updatePageAtLoad = updatePageAtLoad
   \<and> prefix (cachePrefix (app exampleNames)) ''kiwixjs-appCache-3.2.2''
   \<and> inspectKey exampleNames (cachePrefix (app exampleNames)) ''kiwixjs-appCache-3.2.2''
       updatePageAtLoad =
       updatePageAtLoad\<lparr>pwaUpdateNeeded := True,
         updateAlert := Some \<lparr>bannerDisplay = ''block'', bannerDismiss = []\<rparr>,
         persistentMessage := ''Version 3.2.2 is ready to install. (Re-launch app to install.)''\<rparr>
   \<and> versionStamped (app exampleNames)
   \<and> cachePrefix (app exampleNames) = ''kiwixjs-appCache-''"
proof -
  have b: "updateAlert updatePageAtLoad = Some \<lparr>bannerDisplay = ''none'', bannerDismiss = []\<rparr>"
    by (simp add: updatePageAtLoad_def)
  have v: "versionStamped (app exampleNames)" by code_simp
  have p: "cachePrefix (app exampleNames) = ''kiwixjs-appCache-''" by code_simp
  have n: "\<not> prefix (cachePrefix (app exampleNames)) ''otherApp-cache-7''"
    "prefix (cachePrefix (app exampleNames)) ''kiwixjs-appCache-3.2.2''"
    unfolding p by simp_all
  have k: "''kiwixjs-appCache-3.2.1'' = app exampleNames"
    "''kiwixjs-appCache-3.2.2'' \<noteq> app exampleNames"
    "''kiwixjs-appCache-3.2.2'' \<noteq> assets exampleNames"
    by (simp_all add: exampleNames_def)
  from inspectKey_cases [OF b, of "''kiwixjs-appCache-3.2.1''" exampleNames] k(1)
  have 1: "inspectKey exampleNames (cachePrefix (app exampleNames)) ''kiwixjs-appCache-3.2.1''
       updatePageAtLoad = updatePageAtLoad" by blast
  from inspectKey_cases [OF b, of "''otherApp-cache-7''" exampleNames] n(1)
  have 2: "inspectKey exampleNames (cachePrefix (app exampleNames)) ''otherApp-cache-7''
       updatePageAtLoad = updatePageAtLoad" by blast
  from inspectKey_cases [OF b, of "''kiwixjs-appCache-3.2.2''" exampleNames] k(2,3) n(2)
  have 3: "inspectKey exampleNames (cachePrefix (app exampleNames)) ''kiwixjs-appCache-3.2.2''
       updatePageAtLoad =
       updatePageAtLoad\<lparr>pwaUpdateNeeded := True,
         updateAlert := Some (\<lparr>bannerDisplay = ''none'', bannerDismiss = []\<rparr>\<lparr>bannerDisplay := ''block''\<rparr>),
         persistentMessage := ''Version '' @ drop (length (cachePrefix (app exampleNames))) ''kiwixjs-appCache-3.2.2''
                 @ '' is ready to install. (Re-launch app to install.)''\<rparr>" by blast
  from b 1 n 2 3 v p show ?thesis by simp
qed

subsection \<open>The banner after a check\<close>

text \<open>
  C9. When a check on a page with the banner passes the guard and the settings store
  answers with cache names without error marker, the continuation first sets the banner's
  display style to \<^verbatim>\<open>none\<close> and then scans the keys: whatever the style was before the call,
  at the end of the check it is \<^verbatim>\<open>block\<close> if some key is one that the loop does not skip,
  and \<^verbatim>\<open>none\<close> if there is none.
\<close>

theorem completeCheck_banner:
  assumes "serviceWorker st" "\<not> pwaUpdateNeeded st" "updateAlert st = Some b" "\<not> error cn"
  shows "map_option bannerDisplay (updateAlert (completeCheck cn keyList st)) =
       Some (if list_ex (qualifies cn) keyList then ''block'' else ''none'')
     \<and> (list_all (\<lambda>key. \<not> qualifies cn key) keyList \<longrightarrow>
          map_option bannerDisplay (updateAlert (completeCheck cn keyList st)) = Some ''none'')"
proof -
  let ?st1 = "st\<lparr>settingsRequests := settingsRequests st,
                  paramsCacheNames := Some cn, keysRequests := keysRequests st @ [cn]\<rparr>"
  let ?st2 = "st\<lparr>settingsRequests := settingsRequests st,
                  paramsCacheNames := Some cn, keysRequests := keysRequests st\<rparr>"
  have "completeCheck cn keyList st = keysContinuation cn keyList ?st2"
    using assms by (simp add: completeCheck_def run_def checkUpdateStatus_def cacheNamesCallback_def)
  moreover have "updateAlert ?st2 = Some b" using assms by simp
  ultimately have main: "map_option bannerDisplay (updateAlert (completeCheck cn keyList st)) =
       Some (if list_ex (qualifies cn) keyList then ''block'' else ''none'')"
    by (simp only: keysContinuation_display)
  show ?thesis
  proof (intro conjI impI)
    show "map_option bannerDisplay (updateAlert (completeCheck cn keyList st)) =
       Some (if list_ex (qualifies cn) keyList then ''block'' else ''none'')"
      by (rule main)
  next
    assume "list_all (\<lambda>key. \<not> qualifies cn key) keyList"
    then have "\<not> list_ex (qualifies cn) keyList"
      by (simp add: list_all_iff list_ex_iff)
    with main show "map_option bannerDisplay (updateAlert (completeCheck cn keyList st)) = Some ''none''"
      by (simp only: if_False)
  qed
qed

theorem completeCheck_banner_witness:
  "serviceWorker (setBannerDisplay ''block'' updatePageAtLoad)
   \<and> \<not> pwaUpdateNeeded (setBannerDisplay ''block'' updatePageAtLoad)
   \<and> updateAlert (setBannerDisplay ''block'' updatePageAtLoad)
       = Some \<lparr>bannerDisplay = ''block'', bannerDismiss = []\<rparr>
   \<and> \<not> error exampleNames
   \<and> list_all (\<lambda>key. \<not> qualifies exampleNames key)
       [''kiwixjs-appCache-3.2.1'', ''kiwixjs-assetsCache'', ''otherApp-cache-7'']
   \<and> map_option bannerDisplay (updateAlert (completeCheck exampleNames
       [''kiwixjs-appCache-3.2.1'', ''kiwixjs-assetsCache'', ''otherApp-cache-7'']
       (setBannerDisplay ''block'' updatePageAtLoad))) = Some ''none''"
proof -
  let ?st = "setBannerDisplay ''block'' updatePageAtLoad"
  have h: "serviceWorker ?st" "\<not> pwaUpdateNeeded ?st"
    "updateAlert ?st = Some \<lparr>bannerDisplay = ''block'', bannerDismiss = []\<rparr>"
    "\<not> error exampleNames"
    by (simp_all add: setBannerDisplay_def updatePageAtLoad_def exampleNames_def)
  have q: "list_all (\<lambda>key. \<not> qualifies exampleNames key)
       [''kiwixjs-appCache-3.2.1'', ''kiwixjs-assetsCache'', ''otherApp-cache-7'']"
    by code_simp
  from completeCheck_banner [OF h] q h show ?thesis by blast
qed

subsection \<open>The dismiss listeners\<close>

text \<open>
  C8. Starting from a download alert without listener and with the one-time flag not set,
  after any number of calls of \<^verbatim>\<open>displayFileDownloadAlert\<close>, at least one, whatever their
  arguments and whether or not they throw, the dismiss button has exactly one click listener,
  attached by the first call. On a page with an update banner without listener, loading the
  module attaches one click listener to the banner's dismiss button, and no call of
  \<^verbatim>\<open>checkUpdateStatus\<close> and no callback adds another or removes it.
\<close>

theorem dismiss_listeners_once:
  assumes "\<not> downloadAlertSetup dst" "downloadAlertDismiss dst = []"
    and "updateAlert ust = Some b" "bannerDismiss b = []"
  shows "downloadAlertDismiss (downloadSession (c # cs) dst) = [HideBanner]
     \<and> downloadAlertDismiss (downloadStep c dst) = [HideBanner]
     \<and> downloadAlertDismiss (downloadSession [] dst) = []
     \<and> map_option bannerDismiss (updateAlert (loadModule ust)) = Some [HideBanner]
     \<and> map_option bannerDismiss (updateAlert (run es (loadModule ust))) = Some [HideBanner]"
  using assms
  by (simp add: downloadSession_dismiss downloadStep_dismiss run_dismiss loadModule_def)

theorem dismiss_listeners_once_witness:
  "\<not> downloadAlertSetup downloadPageAtLoad \<and> downloadAlertDismiss downloadPageAtLoad = []
   \<and> updateAlert updatePageAtLoad = Some \<lparr>bannerDisplay = ''none'', bannerDismiss = []\<rparr>
   \<and> downloadAlertDismiss (downloadSession
        [exampleCall, exampleCall\<lparr>callDownload := Flag False\<rparr>, exampleCall] downloadPageAtLoad)
       = [HideBanner]
   \<and> map_option bannerDismiss (updateAlert (run
        [CheckUpdateStatus, CacheNamesCallback (Some exampleNames), KeysResolved 0 exampleKeys,
         CheckUpdateStatus] (loadModule updatePageAtLoad))) = Some [HideBanner]"
proof -
  have d: "\<not> downloadAlertSetup downloadPageAtLoad" "downloadAlertDismiss downloadPageAtLoad = []"
    by (simp_all add: downloadPageAtLoad_def)
  have u: "updateAlert updatePageAtLoad = Some \<lparr>bannerDisplay = ''none'', bannerDismiss = []\<rparr>"
    "bannerDismiss \<lparr>bannerDisplay = ''none'', bannerDismiss = []\<rparr> = []"
    by (simp_all add: updatePageAtLoad_def)
  from dismiss_listeners_once [OF d u] d u(1) show ?thesis by blast
qed

subsection \<open>The load listeners of a node\<close>






subsection \<open>feedNodeWithBlob without decoding\<close>




subsection \<open>feedNodeWithBlob with decoding\<close>

text \<open>
  C5, as stated: when the decoding succeeds the callback is called exactly once, with the
  decoded reference, and then the attribute is set. A callback that throws when it is given
  the reference makes the handler of \<^verbatim>\<open>then\<close> throw; the handler of \<^verbatim>\<open>catch\<close>, chained behind
  it, then calls the callback a second time, without argument, and the attribute is not set.
  The same happens, with a callback that returns, when the name of the attribute has a
  space: \<^verbatim>\<open>setAttribute\<close> throws in the handler of \<^verbatim>\<open>then\<close>.
\<close>

theorem feedNodeWithBlob_webp_counterexample:
  "webpMachine imageNode \<and> isWebp ''image/webp''
   \<and> calls (journal (decodeSettled 0 (Decoded ''data:image/png;base64,iVBORw0KGgo='')
        (snd (feedNodeWithBlob ''src'' [82, 73, 70, 70] ''image/webp'' (Some throwsOnReference)
               ''http://localhost/1'' imageNode))))
       = [Some ''data:image/png;base64,iVBORw0KGgo='', None]
   \<and> nodeAttributes (decodeSettled 0 (Decoded ''data:image/png;base64,iVBORw0KGgo='')
        (snd (feedNodeWithBlob ''src'' [82, 73, 70, 70] ''image/webp'' (Some throwsOnReference)
               ''http://localhost/1'' imageNode))) ''src'' = None
   \<and> calls (journal (decodeSettled 0 (Decoded ''data:image/png;base64,iVBORw0KGgo='')
        (snd (feedNodeWithBlob ''a b'' [82, 73, 70, 70] ''image/webp'' (Some returning)
               ''http://localhost/1'' imageNode))))
       = [Some ''data:image/png;base64,iVBORw0KGgo='', None]
   \<and> nodeAttributes (decodeSettled 0 (Decoded ''data:image/png;base64,iVBORw0KGgo='')
        (snd (feedNodeWithBlob ''a b'' [82, 73, 70, 70] ''image/webp'' (Some returning)
               ''http://localhost/1'' imageNode))) ''a b'' = None"
  by code_simp

text \<open>
  C5, as amended. For every call with a MIME type that matches the pattern of WebP images
  while the decode engine is initialized: the call returns without exception and has only
  asked for the decoding. If the decoding fails, the failure is logged, the callback, if
  there is one, is called exactly once, without argument, and nothing else changes: the
  attribute is not set. If the decoding succeeds, the callback, if there is one, returns
  when it is given the decoded reference, and the node accepts the name of the attribute,
  the callback is called exactly once, with that reference, and then the attribute is set
  to it.
\<close>

theorem feedNodeWithBlob_webp:
  assumes "webpMachine st" "isWebp mimeType"
  shows "feedNodeWithBlob attr content mimeType callback fresh st =
       (None, st\<lparr>decodings := decodings st @ [(attr, callback)]\<rparr>)
     \<and> decodeSettled (length (decodings st)) Rejected
         (snd (feedNodeWithBlob attr content mimeType callback fresh st)) =
       st\<lparr>journal := journal st @ [ConsoleError]
            @ (case callback of None \<Rightarrow> [] | Some f \<Rightarrow> [Called None])\<rparr>
     \<and> ((case callback of None \<Rightarrow> True | Some f \<Rightarrow> f (Some uri) = Returns)
          \<and> acceptsName st attr \<longrightarrow>
         decodeSettled (length (decodings st)) (Decoded uri)
           (snd (feedNodeWithBlob attr content mimeType callback fresh st)) =
         st\<lparr>nodeAttributes := (nodeAttributes st)(attr \<mapsto> uri),
            journal := journal st
              @ (case callback of None \<Rightarrow> [] | Some f \<Rightarrow> [Called (Some uri)])
              @ [AttributeSet attr uri]\<rparr>)"
  using assms
  by (cases callback)
     (simp_all add: feedNodeWithBlob_def decodeSettled_def decodeFailed_def decodeSucceeded_def
        invoke_def setAttribute_def andThen_def Let_def)

theorem feedNodeWithBlob_webp_witness:
  "webpMachine imageNode \<and> isWebp ''image/webp''
   \<and> returning (Some ''data:image/png;base64,iVBORw0KGgo='') = Returns
   \<and> acceptsName imageNode ''src''
   \<and> feedNodeWithBlob ''src'' [82, 73, 70, 70] ''image/webp'' (Some returning) ''http://localhost/1'' imageNode
       = (None, imageNode\<lparr>decodings := [(''src'', Some returning)]\<rparr>)
   \<and> decodeSettled 0 Rejected
       (snd (feedNodeWithBlob ''src'' [82, 73, 70, 70] ''image/webp'' (Some returning) ''http://localhost/1'' imageNode))
       = imageNode\<lparr>journal := [ConsoleError, Called None]\<rparr>
   \<and> decodeSettled 0 (Decoded ''data:image/png;base64,iVBORw0KGgo='')
       (snd (feedNodeWithBlob ''src'' [82, 73, 70, 70] ''image/webp'' (Some returning) ''http://localhost/1'' imageNode))
       = imageNode\<lparr>nodeAttributes := [''src'' \<mapsto> ''data:image/png;base64,iVBORw0KGgo=''],
           journal := [Called (Some ''data:image/png;base64,iVBORw0KGgo=''),
                       AttributeSet ''src'' ''data:image/png;base64,iVBORw0KGgo='']\<rparr>"
proof -
  have h: "webpMachine imageNode" "isWebp ''image/webp''"
    by code_simp+
  have r: "returning (Some ''data:image/png;base64,iVBORw0KGgo='') = Returns"
    by (simp add: returning_def)
  have e: "decodings imageNode = []" "journal imageNode = []" "nodeAttributes imageNode = Map.empty"
    by (simp_all add: imageNode_def)
  have a: "acceptsName imageNode ''src''"
    by code_simp
  note w = feedNodeWithBlob_webp [OF h, of "''src''" "[82, 73, 70, 70]" "Some returning"
      "''http://localhost/1''" "''data:image/png;base64,iVBORw0KGgo=''"]
  from w [THEN conjunct1] e
  have 1: "feedNodeWithBlob ''src'' [82, 73, 70, 70] ''image/webp'' (Some returning) ''http://localhost/1'' imageNode
       = (None, imageNode\<lparr>decodings := [(''src'', Some returning)]\<rparr>)"
    by simp
  from w [THEN conjunct2, THEN conjunct1] e
  have 2: "decodeSettled 0 Rejected
       (snd (feedNodeWithBlob ''src'' [82, 73, 70, 70] ''image/webp'' (Some returning) ''http://localhost/1'' imageNode))
       = imageNode\<lparr>journal := [ConsoleError, Called None]\<rparr>"
    by simp
  from w [THEN conjunct2, THEN conjunct2] r a e
  have 3: "decodeSettled 0 (Decoded ''data:image/png;base64,iVBORw0KGgo='')
       (snd (feedNodeWithBlob ''src'' [82, 73, 70, 70] ''image/webp'' (Some returning) ''http://localhost/1'' imageNode))
       = imageNode\<lparr>nodeAttributes := [''src'' \<mapsto> ''data:image/png;base64,iVBORw0KGgo=''],
           journal := [Called (Some ''data:image/png;base64,iVBORw0KGgo=''),
                       AttributeSet ''src'' ''data:image/png;base64,iVBORw0KGgo='']\<rparr>"
    by simp
  from h r a 1 2 3 show ?thesis by blast
qed

subsection \<open>Tokens and the parts of a theme\<close>

lemma set_replaceToEnd: "set (replaceToEnd F R s) \<subseteq> set s"
proof -
  from replaceToEnd_split [of s F R] obtain suf where "s = replaceToEnd F R s @ suf" by blast
  then have "set s = set (replaceToEnd F R s) \<union> set suf" by (metis set_append)
  then show ?thesis by blast
qed

lemma appThemeOf_plain:
  "\<not> list_ex asciiWhitespace theme \<Longrightarrow> \<not> list_ex asciiWhitespace (appThemeOf theme)"
  using set_replaceToEnd [of "\<lambda>c. c = CHR ''_''" "\<lambda>c. \<not> lineTerminator c" theme]
  by (auto simp: list_ex_iff appThemeOf_def)

lemma contentThemeOf_plain:
  "\<not> list_ex asciiWhitespace theme \<Longrightarrow> \<not> list_ex asciiWhitespace (contentThemeOf theme)"
  by (auto simp: list_ex_iff contentThemeOf_def dest: set_dropWhileD)

lemma tokenError_plain:
  "token \<noteq> [] \<Longrightarrow> \<not> list_ex asciiWhitespace token \<Longrightarrow> tokenError token = None"
  by (simp add: tokenError_def)

lemma tokenError_appTheme:
  "\<not> list_ex asciiWhitespace theme \<Longrightarrow> appThemeOf theme \<noteq> [] \<Longrightarrow> tokenError (appThemeOf theme) = None"
  by (simp add: tokenError_plain appThemeOf_plain)

lemma tokenError_contentTheme:
  "\<not> list_ex asciiWhitespace theme \<Longrightarrow> contentThemeOf theme \<noteq> [] \<Longrightarrow>
   tokenError (contentThemeOf theme) = None"
  by (simp add: tokenError_plain contentThemeOf_plain)

lemma tokenError_orLight:
  "\<not> list_ex asciiWhitespace theme \<Longrightarrow> tokenError (orLight (contentThemeOf theme)) = None"
proof (cases "contentThemeOf theme = []")
  case True
  then show ?thesis by (simp add: orLight_def tokenError_def asciiWhitespace_def)
next
  case False
  assume "\<not> list_ex asciiWhitespace theme"
  with False show ?thesis by (simp add: orLight_def tokenError_contentTheme)
qed

lemma set_addToken: "set (addToken token cl) = insert token (set cl)"
  by (auto simp: addToken_def)

lemma set_removeToken: "set (removeToken token cl) = set cl - {token}"
  by (auto simp: removeToken_def)




lemma changeClasses_plain:
  "tokenError token = None \<Longrightarrow> changeClasses element change token st = (None, element (change token) st)"
  by (simp add: changeClasses_def)

lemma andThen_None: "andThen (None, s) f = f s"
  by (simp add: andThen_def)

subsection \<open>The search for the filename fragment\<close>





lemma search_modelled:
  assumes "plainTheme theme"
  shows "search s (sheetFragment (contentThemeOf theme)) \<noteq> Inl e"
proof -
  from assms have "\<not> list_ex syntaxCharacter (contentThemeOf theme)"
    by (simp add: plainTheme_def)
  then have "\<not> list_ex syntaxCharacter (sheetFragment (contentThemeOf theme))"
    by (auto simp: sheetFragment_def list_ex_iff syntaxCharacter_def)
  then show ?thesis by (simp add: search_def parsePattern_def)
qed

subsection \<open>The parts of applyAppTheme on a plain theme\<close>

lemma applyShellTheme_plain:
  assumes "\<not> list_ex asciiWhitespace old" "\<not> list_ex asciiWhitespace theme"
  shows "applyShellTheme old theme st =
     (None,
      st\<lparr>htmlClasses :=
           (if appThemeOf theme = [] then id else addToken (appThemeOf theme))
             ((if appThemeOf old = [] then id else removeToken (appThemeOf old)) (htmlClasses st)),
         footerClasses :=
           addToken (orLight (contentThemeOf theme))
             (removeToken (orLight (contentThemeOf old)) (footerClasses st)),
         datasetTheme := Some theme\<rparr>)"
  using assms
  by (simp add: applyShellTheme_def changeClasses_plain tokenError_appTheme tokenError_orLight
        andThen_None)

lemma removeContentTheme_plain:
  assumes "\<not> list_ex asciiWhitespace old"
  shows "removeContentTheme old theme kiwixJSSheet st =
     (None,
      if contentThemeOf old \<noteq> [] \<and> contentThemeOf old \<noteq> contentThemeOf theme
      then (if kiwixJSSheet \<noteq> None then removeChild else id)
             (iframeClasses_update (removeToken (contentThemeOf old)) st)
      else st)"
  using assms
  by (simp add: removeContentTheme_def changeClasses_plain tokenError_contentTheme andThen_None)

lemma notAttached_modelled:
  assumes "plainTheme theme"
  shows "notAttached theme kiwixJSSheet st \<noteq> Inl e"
proof (cases kiwixJSSheet)
  case None
  then show ?thesis by (simp add: notAttached_def)
next
  case (Some l)
  from search_modelled [OF assms]
  have "\<And>e. search (hrefOf st (linkHref l)) (sheetFragment (contentThemeOf theme)) \<noteq> Inl e"
    by blast
  with Some show ?thesis by (auto simp: notAttached_def split: sum.splits)
qed

lemma applyContentTheme_plain:
  assumes "plainTheme theme"
  shows "applyContentTheme theme kiwixJSSheet st =
     (None,
      if notAttached theme kiwixJSSheet st = Inr True
      then appendLink (locationPrefix st @ ''/css/kiwixJS'' @ contentThemeOf theme @ ''.css'')
             (iframeClasses_update (addToken (contentThemeOf theme)) st)
      else st)"
proof (cases "notAttached theme kiwixJSSheet st")
  case (Inl e)
  with notAttached_modelled [OF assms] show ?thesis by blast
next
  case (Inr b)
  show ?thesis
  proof (cases b)
    case False
    with Inr show ?thesis by (simp add: applyContentTheme_def)
  next
    case True
    with Inr have c: "contentThemeOf theme \<noteq> []"
      by (auto simp: notAttached_def split: if_splits)
    from assms have "\<not> list_ex asciiWhitespace theme" by (simp add: plainTheme_def)
    with c have "tokenError (contentThemeOf theme) = None" by (simp add: tokenError_contentTheme)
    with Inr True show ?thesis
      by (simp add: applyContentTheme_def changeClasses_plain andThen_None locationPrefix_def)
  qed
qed

lemma applyAppTheme_plain:
  assumes "plainTheme theme" "\<not> list_ex asciiWhitespace (oldThemeOf st)"
  shows "applyAppTheme theme st =
     (None,
      exposeReturnLink
        (snd (applyContentTheme theme (kiwixJSSheetOf st)
          (snd (removeContentTheme (oldThemeOf st) theme (kiwixJSSheetOf st)
            (applyHelp (oldThemeOf st) theme
              (snd (applyShellTheme (oldThemeOf st) theme st))))))))"
proof -
  from assms(1) have ws: "\<not> list_ex asciiWhitespace theme" by (simp add: plainTheme_def)
  show ?thesis
    unfolding applyAppTheme_def Let_def
    by (simp add: applyShellTheme_plain [OF assms(2) ws] removeContentTheme_plain [OF assms(2)]
          applyContentTheme_plain [OF assms(1)] andThen_None)
qed

lemma shell_applyHelp [simp]:
  "htmlClasses (applyHelp old theme st) = htmlClasses st"
  "footerClasses (applyHelp old theme st) = footerClasses st"
  "datasetTheme (applyHelp old theme st) = datasetTheme st"
  by (simp_all add: applyHelp_def setDisplay_def split: option.splits)

lemma shell_removeChild [simp]:
  "htmlClasses (removeChild st) = htmlClasses st"
  "footerClasses (removeChild st) = footerClasses st"
  "datasetTheme (removeChild st) = datasetTheme st"
  by (simp_all add: removeChild_def)

lemma shell_appendLink [simp]:
  "htmlClasses (appendLink h st) = htmlClasses st"
  "footerClasses (appendLink h st) = footerClasses st"
  "datasetTheme (appendLink h st) = datasetTheme st"
  by (simp_all add: appendLink_def)

lemma shell_exposeReturnLink [simp]:
  "htmlClasses (exposeReturnLink st) = htmlClasses st"
  "footerClasses (exposeReturnLink st) = footerClasses st"
  "datasetTheme (exposeReturnLink st) = datasetTheme st"
  by (simp_all add: exposeReturnLink_def showReturnLink_def split: option.splits)

lemma applyAppTheme_shell:
  assumes "plainTheme theme" "\<not> list_ex asciiWhitespace (oldThemeOf st)"
  shows "htmlClasses (snd (applyAppTheme theme st)) =
       (if appThemeOf theme = [] then id else addToken (appThemeOf theme))
         ((if appThemeOf (oldThemeOf st) = [] then id else removeToken (appThemeOf (oldThemeOf st)))
            (htmlClasses st))"
    and "footerClasses (snd (applyAppTheme theme st)) =
       addToken (orLight (contentThemeOf theme))
         (removeToken (orLight (contentThemeOf (oldThemeOf st))) (footerClasses st))"
    and "datasetTheme (snd (applyAppTheme theme st)) = Some theme"
    and "oldThemeOf (snd (applyAppTheme theme st)) = theme"
    and "fst (applyAppTheme theme st) = None"
proof -
  from assms(1) have ws: "\<not> list_ex asciiWhitespace theme" by (simp add: plainTheme_def)
  note plain = applyAppTheme_plain [OF assms] applyShellTheme_plain [OF assms(2) ws]
    removeContentTheme_plain [OF assms(2)] applyContentTheme_plain [OF assms(1)]
  show "htmlClasses (snd (applyAppTheme theme st)) =
       (if appThemeOf theme = [] then id else addToken (appThemeOf theme))
         ((if appThemeOf (oldThemeOf st) = [] then id else removeToken (appThemeOf (oldThemeOf st)))
            (htmlClasses st))"
    by (simp add: plain)
  show "footerClasses (snd (applyAppTheme theme st)) =
       addToken (orLight (contentThemeOf theme))
         (removeToken (orLight (contentThemeOf (oldThemeOf st))) (footerClasses st))"
    by (simp add: plain)
  show m: "datasetTheme (snd (applyAppTheme theme st)) = Some theme"
    by (simp add: plain)
  show "oldThemeOf (snd (applyAppTheme theme st)) = theme"
    by (simp add: oldThemeOf_def m)
  show "fst (applyAppTheme theme st) = None"
    by (simp add: plain)
qed

subsection \<open>From dark_invert to light\<close>

text \<open>
  C6. From any classes of the shell root, of the footer and of the content frame, and with
  a theme marker without whitespace (none, or a selector applied before), the calls
  \<^verbatim>\<open>applyAppTheme('dark_invert')\<close> and then \<^verbatim>\<open>applyAppTheme('light')\<close> both return, and
  after them the shell root has the class \<^verbatim>\<open>light\<close> and not \<^verbatim>\<open>dark\<close>, the footer has the
  class \<^verbatim>\<open>_light\<close> and not \<^verbatim>\<open>_invert\<close>, and the theme marker is \<^verbatim>\<open>light\<close>.
\<close>

theorem applyAppTheme_dark_invert_light:
  assumes "\<not> list_ex asciiWhitespace (oldThemeOf st)"
  shows "fst (applyAppTheme ''dark_invert'' st) = None
     \<and> fst (applyAppTheme ''light'' (snd (applyAppTheme ''dark_invert'' st))) = None
     \<and> ''light'' \<in> set (htmlClasses (snd (applyAppTheme ''light'' (snd (applyAppTheme ''dark_invert'' st)))))
     \<and> ''dark'' \<notin> set (htmlClasses (snd (applyAppTheme ''light'' (snd (applyAppTheme ''dark_invert'' st)))))
     \<and> ''_light'' \<in> set (footerClasses (snd (applyAppTheme ''light'' (snd (applyAppTheme ''dark_invert'' st)))))
     \<and> ''_invert'' \<notin> set (footerClasses (snd (applyAppTheme ''light'' (snd (applyAppTheme ''dark_invert'' st)))))
     \<and> datasetTheme (snd (applyAppTheme ''light'' (snd (applyAppTheme ''dark_invert'' st)))) = Some ''light''"
proof -
  let ?st1 = "snd (applyAppTheme ''dark_invert'' st)"
  let ?st2 = "snd (applyAppTheme ''light'' ?st1)"
  have dark: "plainTheme ''dark_invert''" and light: "plainTheme ''light''"
    by (simp_all add: plainTheme_def contentThemeOf_def asciiWhitespace_def syntaxCharacter_def)
  have parts: "appThemeOf ''dark_invert'' = ''dark''" "contentThemeOf ''dark_invert'' = ''_invert''"
    "appThemeOf ''light'' = ''light''" "contentThemeOf ''light'' = []"
    by (simp_all add: appThemeOf_def contentThemeOf_def lineTerminator_def)
  note first = applyAppTheme_shell [OF dark assms]
  have old1: "\<not> list_ex asciiWhitespace (oldThemeOf ?st1)"
    by (simp add: first(4) asciiWhitespace_def)
  note second = applyAppTheme_shell [OF light old1]
  have html: "htmlClasses ?st2 = addToken ''light'' (removeToken ''dark'' (htmlClasses ?st1))"
    by (simp add: second(1) first(4) parts)
  have footer: "footerClasses ?st2 = addToken ''_light'' (removeToken ''_invert'' (footerClasses ?st1))"
    by (simp add: second(2) first(4) parts orLight_def)
  have "''light'' \<in> set (htmlClasses ?st2)" "''dark'' \<notin> set (htmlClasses ?st2)"
    by (simp_all add: html set_addToken set_removeToken)
  moreover have "''_light'' \<in> set (footerClasses ?st2)" "''_invert'' \<notin> set (footerClasses ?st2)"
    by (simp_all add: footer set_addToken set_removeToken)
  ultimately show ?thesis using first(5) second(5) second(3) by blast
qed

theorem applyAppTheme_dark_invert_light_witness:
  "\<not> list_ex asciiWhitespace (oldThemeOf (configurationPage\<lparr>htmlClasses := [''dark''], footerClasses := [''_invert'']\<rparr>))
   \<and> htmlClasses (snd (applyAppTheme ''light'' (snd (applyAppTheme ''dark_invert''
        (configurationPage\<lparr>htmlClasses := [''dark''], footerClasses := [''_invert'']\<rparr>))))) = [''light'']
   \<and> ''light'' \<in> set (htmlClasses (snd (applyAppTheme ''light'' (snd (applyAppTheme ''dark_invert''
        (configurationPage\<lparr>htmlClasses := [''dark''], footerClasses := [''_invert'']\<rparr>))))))
   \<and> ''_light'' \<in> set (footerClasses (snd (applyAppTheme ''light'' (snd (applyAppTheme ''dark_invert''
        (configurationPage\<lparr>htmlClasses := [''dark''], footerClasses := [''_invert'']\<rparr>))))))
   \<and> datasetTheme (snd (applyAppTheme ''light'' (snd (applyAppTheme ''dark_invert''
        (configurationPage\<lparr>htmlClasses := [''dark''], footerClasses := [''_invert'']\<rparr>))))) = Some ''light''"
proof -
  let ?st = "configurationPage\<lparr>htmlClasses := [''dark''], footerClasses := [''_invert'']\<rparr>"
  have h: "\<not> list_ex asciiWhitespace (oldThemeOf ?st)"
    by (simp add: oldThemeOf_def configurationPage_def)
  have c: "htmlClasses (snd (applyAppTheme ''light'' (snd (applyAppTheme ''dark_invert'' ?st)))) = [''light'']"
    by code_simp
  from applyAppTheme_dark_invert_light [OF h] h c show ?thesis by blast
qed

subsection \<open>A second call for the same theme\<close>

lemma kiwixJSSheetOf_None [simp]: "contentDocument st = None \<Longrightarrow> kiwixJSSheetOf st = None"
  by (simp add: kiwixJSSheetOf_def)

lemma kiwixJSSheetOf_Some [simp]:
  "contentDocument st = Some doc \<Longrightarrow>
   kiwixJSSheetOf st = (case themeSheets doc of [] \<Rightarrow> None | l # ls \<Rightarrow> Some l)"
  by (simp add: kiwixJSSheetOf_def)

lemma content_applyHelp [simp]:
  "contentDocument (applyHelp old theme st) = contentDocument st"
  "iframeClasses (applyHelp old theme st) = iframeClasses st"
  "locationPrefix (applyHelp old theme st) = locationPrefix st"
  "hrefOf (applyHelp old theme st) = hrefOf st"
  by (simp_all add: applyHelp_def setDisplay_def locationPrefix_def split: option.splits)

lemma content_exposeReturnLink [simp]:
  "contentDocument (exposeReturnLink st) = contentDocument st"
  "iframeClasses (exposeReturnLink st) = iframeClasses st"
  "hrefOf (exposeReturnLink st) = hrefOf st"
  by (simp_all add: exposeReturnLink_def showReturnLink_def split: option.splits)

lemma hrefOf_changes [simp]:
  "hrefOf (appendLink h st) = hrefOf st"
  "hrefOf (removeChild st) = hrefOf st"
  by (simp_all add: appendLink_def removeChild_def)

lemma locationPrefix_changes [simp]:
  "locationPrefix (htmlClasses_update f st) = locationPrefix st"
  "locationPrefix (footerClasses_update f st) = locationPrefix st"
  "locationPrefix (iframeClasses_update f st) = locationPrefix st"
  "locationPrefix (datasetTheme_update g st) = locationPrefix st"
  "locationPrefix (removeChild st) = locationPrefix st"
  by (simp_all add: locationPrefix_def removeChild_def)













lemma rest_applyHelp [simp]:
  "configureActive (applyHelp old theme st) = configureActive st"
  "viewArticleDisplay (applyHelp old theme st) = viewArticleDisplay st"
  "viewArticleClick (applyHelp old theme st) = viewArticleClick st"
  "locationProtocol (applyHelp old theme st) = locationProtocol st"
  "locationHost (applyHelp old theme st) = locationHost st"
  "locationPathname (applyHelp old theme st) = locationPathname st"
  by (simp_all add: applyHelp_def setDisplay_def split: option.splits)

lemma rest_exposeReturnLink [simp]:
  "displayOf (exposeReturnLink st) = displayOf st"
  "configureActive (exposeReturnLink st) = configureActive st"
  "locationProtocol (exposeReturnLink st) = locationProtocol st"
  "locationHost (exposeReturnLink st) = locationHost st"
  "locationPathname (exposeReturnLink st) = locationPathname st"
  by (simp_all add: exposeReturnLink_def showReturnLink_def split: option.splits)

lemma displayOf_changes [simp]:
  "displayOf (appendLink h st) = displayOf st"
  "displayOf (removeChild st) = displayOf st"
  by (simp_all add: appendLink_def removeChild_def)



subsection \<open>Calling applyAppTheme twice\<close>




subsection \<open>The theme marker never has whitespace\<close>

text \<open>
  The marker is written only after the class tokens of the selector have been accepted, and
  every character of a selector is in one of its two tokens: a marker without whitespace
  (none, in the markup) stays without whitespace through every call, whatever the selector.
\<close>

lemma theme_parts_cover: "set theme \<subseteq> set (appThemeOf theme) \<union> set (contentThemeOf theme)"
proof -
  let ?F = "\<lambda>c. c = CHR ''_''" and ?P = "\<lambda>c. c \<noteq> CHR ''_''"
  from replaceToEnd_split [of theme ?F "\<lambda>c. \<not> lineTerminator c"]
  obtain suf where split: "theme = appThemeOf theme @ suf" and suf: "suf = [] \<or> hd suf = CHR ''_''"
    unfolding appThemeOf_def by blast
  have "set suf \<subseteq> set (contentThemeOf theme)"
  proof (cases suf)
    case Nil
    then show ?thesis by simp
  next
    case (Cons c cs)
    with suf have c: "c = CHR ''_''" by simp
    show ?thesis
    proof (cases "\<forall>x \<in> set (appThemeOf theme). ?P x")
      case True
      then have "dropWhile ?P (appThemeOf theme @ suf) = dropWhile ?P suf"
        by simp
      with Cons c split show ?thesis by (simp add: contentThemeOf_def)
    next
      case False
      then obtain x where "x \<in> set (appThemeOf theme)" "\<not> ?P x" by blast
      then have "dropWhile ?P (appThemeOf theme @ suf) = dropWhile ?P (appThemeOf theme) @ suf"
        by (rule dropWhile_append1)
      with split have "contentThemeOf theme = dropWhile ?P (appThemeOf theme) @ suf"
        by (simp add: contentThemeOf_def)
      then have "set (contentThemeOf theme) = set (dropWhile ?P (appThemeOf theme)) \<union> set suf"
        by (metis set_append)
      then show ?thesis by blast
    qed
  qed
  moreover from split have "set theme = set (appThemeOf theme) \<union> set suf"
    by (metis set_append)
  ultimately show ?thesis by blast
qed

lemma tokenError_None_plain: "tokenError token = None \<Longrightarrow> \<not> list_ex asciiWhitespace token"
  by (simp add: tokenError_def split: if_splits)

lemma applyShellTheme_marker:
  "datasetTheme (snd (applyShellTheme old theme st)) = datasetTheme st
   \<or> (datasetTheme (snd (applyShellTheme old theme st)) = Some theme
        \<and> \<not> list_ex asciiWhitespace theme)"
proof (cases "fst (applyShellTheme old theme st)")
  case (Some e)
  then have "datasetTheme (snd (applyShellTheme old theme st)) = datasetTheme st"
    by (auto simp: applyShellTheme_def andThen_def changeClasses_def
          split: option.splits if_splits prod.splits)
  then show ?thesis by simp
next
  case None
  then have a: "appThemeOf theme \<noteq> [] \<longrightarrow> tokenError (appThemeOf theme) = None"
    and c: "tokenError (orLight (contentThemeOf theme)) = None"
    and m: "datasetTheme (snd (applyShellTheme old theme st)) = Some theme"
    by (auto simp: applyShellTheme_def andThen_def changeClasses_def
          split: option.splits if_splits prod.splits)
  from a have "\<not> list_ex asciiWhitespace (appThemeOf theme)"
    by (cases "appThemeOf theme = []") (simp_all add: tokenError_None_plain)
  moreover from c have "\<not> list_ex asciiWhitespace (contentThemeOf theme)"
    by (cases "contentThemeOf theme = []") (auto simp: orLight_def dest: tokenError_None_plain)
  ultimately have "\<not> list_ex asciiWhitespace theme"
    using theme_parts_cover [of theme] by (auto simp: list_ex_iff)
  with m show ?thesis by simp
qed

lemma removeContentTheme_marker:
  "datasetTheme (snd (removeContentTheme old theme kiwixJSSheet st)) = datasetTheme st"
  by (simp add: removeContentTheme_def andThen_def changeClasses_def split: option.splits)

lemma applyContentTheme_marker:
  "datasetTheme (snd (applyContentTheme theme kiwixJSSheet st)) = datasetTheme st"
  by (simp add: applyContentTheme_def andThen_def changeClasses_def
        split: option.splits sum.splits bool.splits)

lemma applyAppTheme_marker_cases:
  "datasetTheme (snd (applyAppTheme theme st)) = datasetTheme (snd (applyShellTheme (oldThemeOf st) theme st))"
proof -
  obtain e1 s1 where 1: "applyShellTheme (oldThemeOf st) theme st = (e1, s1)" by force
  obtain e2 s2 where 2: "removeContentTheme (oldThemeOf st) theme (kiwixJSSheetOf st)
      (applyHelp (oldThemeOf st) theme s1) = (e2, s2)" by force
  obtain e3 s3 where 3: "applyContentTheme theme (kiwixJSSheetOf st) s2 = (e3, s3)" by force
  from 2 removeContentTheme_marker [of "oldThemeOf st" theme "kiwixJSSheetOf st" "applyHelp (oldThemeOf st) theme s1"]
  have m2: "datasetTheme s2 = datasetTheme s1" by simp
  from 3 applyContentTheme_marker [of theme "kiwixJSSheetOf st" s2]
  have m3: "datasetTheme s3 = datasetTheme s2" by simp
  show ?thesis
    unfolding applyAppTheme_def Let_def
    by (cases e1; cases e2; cases e3) (simp_all add: 1 2 3 m2 m3 andThen_def)
qed

lemma applyAppTheme_marker:
  assumes "\<not> list_ex asciiWhitespace (oldThemeOf st)"
  shows "\<not> list_ex asciiWhitespace (oldThemeOf (snd (applyAppTheme theme st)))"
  using applyShellTheme_marker [of "oldThemeOf st" theme st] assms
  by (auto simp: applyAppTheme_marker_cases oldThemeOf_def)

end
